theory Spec2Isabelle
  imports Main
begin

section \<open>JavaScript strings\<close>

text \<open>
  A JavaScript string is a sequence of UTF-16 code units, and \<open>length\<close>,
  \<open>substring\<close>, \<open>includes\<close> and \<open>trim\<close> work on code units. The model
  writes a string as a \<^typ>\<open>string\<close>; one \<^typ>\<open>char\<close> stands for one code unit,
  so the model covers the strings whose code units are below 256. Every literal the
  extension compares with is ASCII.
\<close>

definition nl :: char where
  "nl = CHR 0x0A"

definition sp :: char where
  "sp = CHR 0x20"

definition is_ws :: "char \<Rightarrow> bool" where
  \<comment> \<open>the white space and line terminators that \<open>String.prototype.trim\<close> removes\<close>
  "is_ws c = (of_char c \<in> set [9, 10, 11, 12, 13, 32, 160 :: nat])"

definition trim :: "string \<Rightarrow> string" where
  "trim s = rev (dropWhile is_ws (rev (dropWhile is_ws s)))"

fun str_includes :: "string \<Rightarrow> string \<Rightarrow> bool" where
  \<comment> \<open>\<open>s.includes(p)\<close>\<close>
  "str_includes [] p = (p = [])"
| "str_includes (c # cs) p = (if take (length p) (c # cs) = p then True else str_includes cs p)"

fun indexOf :: "string \<Rightarrow> string \<Rightarrow> nat option" where
  \<comment> \<open>\<open>s.indexOf(p)\<close>, with \<open>None\<close> for -1\<close>
  "indexOf [] p = (if p = [] then Some 0 else None)"
| "indexOf (c # cs) p =
     (if take (length p) (c # cs) = p then Some 0 else map_option Suc (indexOf cs p))"

fun join :: "string \<Rightarrow> string list \<Rightarrow> string" where
  \<comment> \<open>\<open>xs.join(sep)\<close>\<close>
  "join sep [] = []"
| "join sep [x] = x"
| "join sep (x # y # ys) = x @ sep @ join sep (y # ys)"

fun split_nl :: "string \<Rightarrow> string list" where
  \<comment> \<open>\<open>s.split('\n')\<close>: never empty, the empty string gives one empty line\<close>
  "split_nl [] = [[]]"
| "split_nl (c # cs) =
     (if c = nl then [] # split_nl cs
      else (case split_nl cs of [] \<Rightarrow> [[c]] | l # ls \<Rightarrow> (c # l) # ls))"

fun replace_runs :: "char \<Rightarrow> nat \<Rightarrow> string \<Rightarrow> nat \<Rightarrow> string \<Rightarrow> string" where
  \<comment> \<open>\<open>s.replace(/c{k,}/g, r)\<close>: every maximal run of at least \<open>k\<close> copies of \<open>c\<close>
      becomes \<open>r\<close>; \<open>n\<close> counts the copies of the run read so far\<close>
  "replace_runs c k r n [] = (if k \<le> n then r else replicate n c)"
| "replace_runs c k r n (x # xs) =
     (if x = c then replace_runs c k r (Suc n) xs
      else (if k \<le> n then r else replicate n c) @ x # replace_runs c k r 0 xs)"

section \<open>The context handler: direct page scraping\<close>

text \<open>
  \<open>CONTEXT_CONFIG.maxPageContentLength\<close> of the content script, and the marker that
  \<open>captureDirectPageContent\<close> and \<open>captureWithJina\<close> append after a cut.
\<close>

definition maxPageContentLength :: nat where
  "maxPageContentLength = 20000"

definition truncation_marker :: string where
  "truncation_marker = [nl, nl] @ ''[Content truncated due to length]''"

definition is_control :: "char \<Rightarrow> bool" where
  \<comment> \<open>the class \<open>[\u0000-\u001F\u007F-\u009F]\<close>\<close>
  "is_control c =
     ((of_char c :: nat) \<le> 31 \<or> (127 \<le> (of_char c :: nat) \<and> (of_char c :: nat) \<le> 159))"

definition keep_line :: "string \<Rightarrow> bool" where
  \<comment> \<open>\<open>line.trim().length > 10 || line.trim() === ''\<close>\<close>
  "keep_line line = (10 < length (trim line) \<or> trim line = [])"

definition cleanPageContent :: "string \<Rightarrow> string" where
  "cleanPageContent content =
     (let cleaned = replace_runs nl 3 [nl, nl] 0 content;
          cleaned = replace_runs sp 2 [sp] 0 cleaned;
          cleaned = filter (\<lambda>c. \<not> is_control c) cleaned;
          lines = split_nl cleaned
      in join [nl] (filter keep_line lines))"

text \<open>
  The DOM reads of \<open>captureDirectPageContent\<close> are its parameters: the document title,
  the page URL, what \<open>extractStructuredContent(contentElement)\<close> returned (it catches
  its own exceptions and returns the empty string), and the \<open>textContent\<close> of the
  nodes that \<open>getVisibleTextNodes(contentElement)\<close> returned, \<open>None\<close> when that call
  raised. \<open>extractPageContent\<close> is the part of the function up to the flat fallback,
  \<open>truncatePageContent\<close> the cut to the character budget.
\<close>

definition extractPageContent :: "string \<Rightarrow> string list option \<Rightarrow> string option" where
  "extractPageContent structured visible =
     (if structured = [] \<or> length structured < 100
      then map_option (\<lambda>nodes. join [nl, nl] (map trim nodes)) visible
      else Some structured)"

definition truncatePageContent :: "string \<Rightarrow> string" where
  "truncatePageContent pageContent =
     (if maxPageContentLength < length pageContent
      then take maxPageContentLength pageContent @ truncation_marker
      else pageContent)"

definition page_header :: "string \<Rightarrow> string \<Rightarrow> string" where
  "page_header title href = ''# '' @ title @ [nl] @ ''URL: '' @ href @ [nl, nl]"

definition captureDirectPageContent ::
  "string \<Rightarrow> string \<Rightarrow> string \<Rightarrow> string list option \<Rightarrow> string" where
  "captureDirectPageContent title href structured visible =
     (case extractPageContent structured visible of
        None \<Rightarrow> ''Page Title: '' @ title @ [nl] @ ''URL: '' @ href
      | Some pageContent \<Rightarrow>
          page_header title href @ truncatePageContent (cleanPageContent pageContent))"

section \<open>The context handler: the readability service\<close>

text \<open>
  The outcome of one \<open>fetch\<close>: the promise is rejected (no response at all), or a
  response arrives with its HTTP status and its parsed body. \<open>response.ok\<close> holds for
  the statuses 200 to 299.
\<close>

datatype 'a fetched = Rejected string | Responded nat 'a

definition ok :: "nat \<Rightarrow> bool" where
  "ok status = (200 \<le> status \<and> status \<le> 299)"

function decimal :: "nat \<Rightarrow> string" where
  \<comment> \<open>a number in a template literal\<close>
  "decimal n =
     (if n < 10 then [''0123456789'' ! n] else decimal (n div 10) @ [''0123456789'' ! (n mod 10)])"
  by pat_completeness auto
termination
  by (relation "measure (\<lambda>n. n)") auto

declare decimal.simps [simp del]

record attachment =
  file_name :: string
  file_type :: string
  file_size :: nat
  extracted_content :: string
  file_id :: string
  media_type :: string
  width :: nat
  height :: nat
  display_width :: nat
  display_height :: nat
  data :: string

text \<open>
  The JSON bodies the extension sends: to the readability service (the page URL, with
  \<open>format: 'markdown'\<close> and \<open>include_images: false\<close>), to create a conversation
  (\<open>name\<close>, \<open>project_uuid\<close>, \<open>uuid\<close>) and to post a message (\<open>prompt\<close> and
  \<open>attachments\<close>; the other fields of that body are constants).
\<close>

datatype req_body =
    NoBody
  | ReaderBody string
  | ConversationBody string "string option" string
  | CompletionBody string "attachment list"

record http_request =
  req_method :: string
  req_url :: string
  req_body :: req_body

definition privateIndicators :: "string list" where
  "privateIndicators =
     [''localhost'', ''127.0.0.1'', ''file://'', ''chrome://'', ''chrome-extension://'',
      ''admin'', ''dashboard'', ''account'', ''profile'', ''settings'', ''internal'',
      ''signin'', ''login'', ''auth'', ''portal'']"

definition isPublicWebpage :: "string \<Rightarrow> bool" where
  \<comment> \<open>\<open>url\<close> is \<open>window.location.href\<close>\<close>
  "isPublicWebpage url = (\<not> list_ex (\<lambda>indicator. str_includes url indicator) privateIndicators)"

definition jina_request :: "string \<Rightarrow> string \<Rightarrow> http_request" where
  \<comment> \<open>\<open>r_jina_api\<close> is \<open>CONTEXT_CONFIG.r_jina_api\<close>, which no source file sets\<close>
  "jina_request r_jina_api url =
     \<lparr>req_method = ''POST'', req_url = r_jina_api @ ''/reader'', req_body = ReaderBody url\<rparr>"

definition captureWithJina :: "string option fetched \<Rightarrow> string + string" where
  \<comment> \<open>the body is \<open>data.markdown\<close>, \<open>None\<close> when \<open>data\<close> is falsy or has no such
      property; \<open>Inl\<close> is the error the function throws\<close>
  "captureWithJina response =
     (case response of
        Rejected e \<Rightarrow> Inl e
      | Responded status markdown \<Rightarrow>
          if \<not> ok status
          then Inl (''r.jina.ai API responded with status: '' @ decimal status)
          else (case markdown of
                  None \<Rightarrow> Inl ''No markdown content returned from r.jina.ai''
                | Some md \<Rightarrow>
                    if md = [] then Inl ''No markdown content returned from r.jina.ai''
                    else if maxPageContentLength < length md
                    then Inr (take maxPageContentLength md @ truncation_marker)
                    else Inr md))"

text \<open>
  \<open>capturePageContext\<close> of the readability variant of the context handler. \<open>jina\<close>
  is what the service answers if it is asked; \<open>direct\<close> is the outcome of the call
  \<open>captureDirectPageContent()\<close>: \<open>Inr\<close> its value, \<open>Inl\<close> an exception that escapes
  it. The result is the list of requests sent and the context returned.
\<close>

definition capturePageContext ::
  "string \<Rightarrow> string \<Rightarrow> string option fetched \<Rightarrow> string + string \<Rightarrow>
     http_request list \<times> string" where
  "capturePageContext r_jina_api url jina direct =
     (let fallback = (case direct of Inl e \<Rightarrow> [] | Inr pageContent \<Rightarrow> pageContent) in
      if isPublicWebpage url
      then (case captureWithJina jina of
              Inl jinaError \<Rightarrow> ([jina_request r_jina_api url], fallback)
            | Inr jinaContext \<Rightarrow>
                if jinaContext \<noteq> [] \<and> 100 < length jinaContext
                then ([jina_request r_jina_api url], jinaContext)
                else ([jina_request r_jina_api url], fallback))
      else ([], fallback))"

definition is_markdown_char :: "char \<Rightarrow> bool" where
  \<comment> \<open>the class \<open>[#*_~`]\<close>\<close>
  "is_markdown_char c = (c \<in> set ''#*_~`'')"

definition is_sentence_end :: "char \<Rightarrow> bool" where
  \<comment> \<open>the class \<open>[.!?]\<close>\<close>
  "is_sentence_end c = (c \<in> set ''.!?'')"

definition search :: "(char \<Rightarrow> bool) \<Rightarrow> string \<Rightarrow> nat option" where
  \<comment> \<open>the index of the first match of a one-character class, as \<open>s.match(re).index\<close>\<close>
  "search P s = (if list_ex P s then Some (length (takeWhile (\<lambda>c. \<not> P c) s)) else None)"

definition generateConversationTitle :: "string \<Rightarrow> string" where
  "generateConversationTitle question =
     (let title = trim question;
          title = filter (\<lambda>c. \<not> is_markdown_char c) title;
          title =
            (if 50 < length title
             then (case search is_sentence_end title of
                     None \<Rightarrow> take 47 title @ ''...''
                   | Some i \<Rightarrow> if i < 60 then take (i + 1) title else take 47 title @ ''...'')
             else title)
      in ''Form: '' @ title)"

text \<open>
  What the specification calls a failed or thin answer of the readability service: the
  request is rejected, the status is not 2xx, the answer has no markdown, or the
  markdown has fewer than 100 characters.
\<close>

definition jina_thin_or_failed :: "string option fetched \<Rightarrow> bool" where
  "jina_thin_or_failed jina =
     (case jina of
        Rejected e \<Rightarrow> True
      | Responded status markdown \<Rightarrow>
          (if ok status then (case markdown of None \<Rightarrow> True | Some md \<Rightarrow> length md < 100)
           else True))"

section \<open>The content script: elements and the form-field selectors\<close>

text \<open>
  What the content script reads of a DOM node: its tag name (upper case, as
  \<open>tagName\<close> gives it for an HTML element), its class list and its attributes (names
  in lower case; \<open>getAttribute\<close> is the first entry of that name). An element has
  in addition its ancestors (nearest first), the \<open>value\<close> and \<open>innerHTML\<close> that
  \<open>insertTextIntoElement\<close> assigns, whether \<open>document.body.contains\<close> it, and the
  log of the events dispatched on it with \<open>dispatchEvent\<close>.
\<close>

record node =
  tagName :: string
  classList :: "string list"
  attributes :: "(string \<times> string) list"

record element = node +
  ancestors :: "unit node_scheme list"
  elem_value :: string
  innerHTML :: string
  inDocument :: bool
  dispatched :: "string list"

definition getAttribute :: "'a node_scheme \<Rightarrow> string \<Rightarrow> string option" where
  "getAttribute n name = map_of (attributes n) name"

definition hasAttribute :: "'a node_scheme \<Rightarrow> string \<Rightarrow> bool" where
  "hasAttribute n name = (case map_of (attributes n) name of None \<Rightarrow> False | Some v \<Rightarrow> True)"

text \<open>
  The selectors of the script: a compound selector is a list of simple selectors that
  must all match (a tag, a class, \<open>[a="v"]\<close>, \<open>:not([a="v"])\<close>); \<open>Within a c\<close> is the
  descendant combinator \<open>a c\<close>. Tags are written in upper case. In an HTML
  document the value of the \<open>type\<close> attribute is compared without regard to ASCII
  case (\<open>[type="hidden"]\<close> matches \<open>type="HIDDEN"\<close>); the values of the other
  attributes that the script selects on (\<open>contenteditable\<close>, \<open>role\<close>,
  \<open>data-slate-editor\<close>) are compared as they are.
\<close>

datatype simple = Tag string | Class string | AttrEq string string | NotAttrEq string string

datatype selector = Compound "simple list" | Within "simple list" "simple list"

definition ascii_lower :: "char \<Rightarrow> char" where
  "ascii_lower c =
     (case map_of (zip ''ABCDEFGHIJKLMNOPQRSTUVWXYZ'' ''abcdefghijklmnopqrstuvwxyz'') c of
        None \<Rightarrow> c | Some l \<Rightarrow> l)"

definition attribute_is :: "'a node_scheme \<Rightarrow> string \<Rightarrow> string \<Rightarrow> bool" where
  \<comment> \<open>whether the node matches \<open>[a="v"]\<close>\<close>
  "attribute_is n a v =
     (case getAttribute n a of
        None \<Rightarrow> False
      | Some actual \<Rightarrow>
          if a = ''type'' then map ascii_lower actual = map ascii_lower v else actual = v)"

fun matches_simple :: "'a node_scheme \<Rightarrow> simple \<Rightarrow> bool" where
  "matches_simple n (Tag t) = (tagName n = t)"
| "matches_simple n (Class c) = (c \<in> set (classList n))"
| "matches_simple n (AttrEq a v) = attribute_is n a v"
| "matches_simple n (NotAttrEq a v) = (\<not> attribute_is n a v)"

fun matches :: "'a element_scheme \<Rightarrow> selector \<Rightarrow> bool" where
  "matches e (Compound c) = list_all (matches_simple e) c"
| "matches e (Within a c) =
     (list_all (matches_simple e) c \<and>
      list_ex (\<lambda>n. list_all (matches_simple n) a) (ancestors e))"

definition closest :: "'a element_scheme \<Rightarrow> selector list \<Rightarrow> bool" where
  \<comment> \<open>whether \<open>element.closest(selectors)\<close> is not null, for selectors without
      combinators: the element or one of its ancestors matches\<close>
  "closest e sels =
     list_ex (\<lambda>s. case s of
          Compound c \<Rightarrow>
            list_all (matches_simple e) c \<or>
            list_ex (\<lambda>n. list_all (matches_simple n) c) (ancestors e)
        | Within a c \<Rightarrow> False) sels"

definition FORM_ELEMENTS :: "selector list" where
  "FORM_ELEMENTS =
     [Compound [Tag ''INPUT'', AttrEq ''type'' ''text''],
      Compound [Tag ''TEXTAREA''],
      Compound [AttrEq ''contenteditable'' ''true''],
      Compound [Tag ''INPUT'', AttrEq ''type'' ''search''],
      Compound [Class ''form-control''],
      Compound [Class ''cell-input''],
      Compound [Class ''input''],
      Within [Class ''cellContainer''] [Tag ''INPUT''],
      Within [Class ''cellContainer''] [Tag ''TEXTAREA''],
      Compound [Tag ''INPUT'', NotAttrEq ''type'' ''hidden'', NotAttrEq ''type'' ''checkbox'',
        NotAttrEq ''type'' ''radio'', NotAttrEq ''type'' ''button'', NotAttrEq ''type'' ''submit''],
      Compound [AttrEq ''role'' ''textbox''],
      Compound [Class ''ProseMirror''],
      Compound [Class ''ql-editor''],
      Compound [Class ''CodeMirror''],
      Compound [AttrEq ''data-slate-editor'' ''true'']]"

definition is_form_element :: "'a element_scheme \<Rightarrow> bool" where
  \<comment> \<open>\<open>FORM_ELEMENTS.some(selector => element.matches(selector))\<close>\<close>
  "is_form_element e = list_ex (matches e) FORM_ELEMENTS"

text \<open>
  The \<open>type\<close> property of an \<open>input\<close> element reflects its \<open>type\<close> attribute limited
  to the known keywords: the keyword in lower case, and \<open>text\<close> when the attribute is
  missing or is no keyword.
\<close>

definition input_types :: "string list" where
  "input_types =
     [''hidden'', ''text'', ''search'', ''tel'', ''url'', ''email'', ''password'', ''date'',
      ''month'', ''week'', ''time'', ''datetime-local'', ''number'', ''range'', ''color'',
      ''checkbox'', ''radio'', ''file'', ''submit'', ''image'', ''reset'', ''button'']"

definition type_property :: "'a node_scheme \<Rightarrow> string" where
  "type_property n =
     (case getAttribute n ''type'' of
        None \<Rightarrow> ''text''
      | Some t \<Rightarrow> if map ascii_lower t \<in> set input_types then map ascii_lower t else ''text'')"

definition editor_selectors :: "selector list" where
  \<comment> \<open>\<open>'.ProseMirror, .ql-editor, .CodeMirror, [data-slate-editor="true"]'\<close>\<close>
  "editor_selectors =
     [Compound [Class ''ProseMirror''], Compound [Class ''ql-editor''],
      Compound [Class ''CodeMirror''], Compound [AttrEq ''data-slate-editor'' ''true'']]"

section \<open>The content script: the inserter\<close>

text \<open>
  \<open>insertTextIntoElement\<close> of the first script of \<open>content.js\<close>: the function is the
  callback that the script runs 50 ms after the call (\<open>setTimeout\<close>), on a non-null
  element. \<open>insertTextIntoElement2\<close> is the function of the second script, which
  writes at once. Calls of \<open>focus()\<close> and the selection range are not part of the
  model.
\<close>

definition insertTextIntoElement :: "'a element_scheme \<Rightarrow> string \<Rightarrow> 'a element_scheme" where
  "insertTextIntoElement element txt =
     (let element =
        (if tagName element = ''TEXTAREA'' \<or>
            (tagName element = ''INPUT'' \<and> type_property element = ''text'')
         then element\<lparr>elem_value := txt,
                dispatched := dispatched element @ [''input'', ''change'', ''keyup'']\<rparr>
         else if getAttribute element ''contenteditable'' = Some ''true''
         then element\<lparr>innerHTML := txt, dispatched := dispatched element @ [''input'']\<rparr>
         else element)
      in if ''form-control'' \<in> set (classList element) \<or>
            hasAttribute element ''data-component'' \<or>
            hasAttribute element ''role'' \<or>
            closest element editor_selectors
         then element\<lparr>dispatched := dispatched element @ [''blur'']\<rparr>
         else element)"

definition insertTextIntoElement2 :: "'a element_scheme \<Rightarrow> string \<Rightarrow> 'a element_scheme" where
  "insertTextIntoElement2 element txt =
     (if tagName element = ''TEXTAREA'' \<or>
         (tagName element = ''INPUT'' \<and> type_property element = ''text'')
      then element\<lparr>elem_value := txt, dispatched := dispatched element @ [''input'']\<rparr>
      else if getAttribute element ''contenteditable'' = Some ''true''
      then element\<lparr>innerHTML := txt, dispatched := dispatched element @ [''input'']\<rparr>
      else element)"

text \<open>
  The listener of \<open>airtable-handler.js\<close> for the event \<open>claude-response-ready\<close>, on
  the element and the answer of the event's detail, for a non-null element. That
  script runs on the pages of \<open>airtable.com\<close>, in the same world as the content
  script.
\<close>

definition claude_response_ready :: "'a element_scheme \<Rightarrow> string \<Rightarrow> 'a element_scheme" where
  "claude_response_ready element answer =
     (if answer \<noteq> []
      then (if tagName element = ''INPUT'' \<or> tagName element = ''TEXTAREA''
            then element\<lparr>elem_value := answer,
                   dispatched := dispatched element @ [''input'', ''change'']\<rparr>
            else if hasAttribute element ''contenteditable''
            then element\<lparr>innerHTML := answer, dispatched := dispatched element @ [''input'']\<rparr>
            else element)
      else element)"

text \<open>
  The elements that the specification has the inserter write to: textareas, inputs whose
  type is \<open>text\<close>, and elements with \<open>contenteditable="true"\<close>.
\<close>

definition receives_text :: "'a element_scheme \<Rightarrow> bool" where
  "receives_text e =
     (tagName e = ''TEXTAREA'' \<or>
      (tagName e = ''INPUT'' \<and> type_property e = ''text'') \<or>
      getAttribute e ''contenteditable'' = Some ''true'')"

text \<open>
  An \<open>input[type="search"]\<close> element holding the value \<open>old\<close>; the same input in
  a cell of a table (\<open>div.cellContainer\<close>); an \<open>input type="HIDDEN"\<close>.
\<close>

definition search_input :: element where
  "search_input =
     \<lparr>tagName = ''INPUT'', classList = [], attributes = [(''type'', ''search'')],
      ancestors = [], elem_value = ''old'', innerHTML = [], inDocument = True,
      dispatched = []\<rparr>"

definition cell_search_input :: element where
  "cell_search_input =
     search_input\<lparr>ancestors :=
       [\<lparr>tagName = ''DIV'', classList = [''cellContainer''], attributes = []\<rparr>]\<rparr>"

definition hidden_input :: element where
  "hidden_input =
     \<lparr>tagName = ''INPUT'', classList = [], attributes = [(''type'', ''HIDDEN'')],
      ancestors = [], elem_value = ''token'', innerHTML = [], inDocument = True,
      dispatched = []\<rparr>"

section \<open>The content script: the question inferrer\<close>

text \<open>
  An exception of the scripts: \<open>Error\<close> is thrown by a script itself with the given
  message, \<open>TypeError\<close> by the runtime (a property of \<open>null\<close> is read, a \<open>fetch\<close>
  is rejected), \<open>SyntaxError\<close> by \<open>querySelector\<close> for a selector that does not
  parse. \<open>error_message\<close> is \<open>error.message\<close>.
\<close>

datatype js_error = Error string | TypeError string | SyntaxError string

fun error_message :: "js_error \<Rightarrow> string" where
  "error_message (Error m) = m"
| "error_message (TypeError m) = m"
| "error_message (SyntaxError m) = m"

text \<open>
  The DOM reads of \<open>detectFormQuestion(element)\<close> are the fields of a record:
  \<open>element.tagName\<close>; \<open>element.id\<close>; the outcome of
  \<open>document.querySelector('label[for="id"]')\<close>, which is the \<open>SyntaxError\<close> raised
  when the id makes the selector invalid (the id \<open>a"b\<close> does), \<open>None\<close> when no
  label matches, and the \<open>textContent\<close> of the first such label otherwise; the
  \<open>placeholder\<close> attribute; \<open>getAttribute('aria-label')\<close>; the chain of
  \<open>parentElement\<close>s, nearest first, each with whether it is \<open>document.body\<close> and the
  \<open>textContent\<close> of the first element in it that matches \<open>'label, .label,
  .form-label, h1, ..., h6'\<close>; the \<open>textContent\<close> of the chain of
  \<open>previousElementSibling\<close>s, nearest first; \<open>getAttribute('contenteditable')\<close>;
  and, when \<open>element.closest('div, section, article')\<close> is not null, the
  \<open>textContent\<close> of the elements in that container that match \<open>'h1, ..., h6,
  .prompt, .question'\<close>, in document order.
\<close>

record ancestor =
  is_body :: bool
  first_label :: "string option"

record field_dom =
  field_tag :: string
  elem_id :: string
  label_for :: "js_error + string option"
  placeholder_attribute :: "string option"
  aria_label :: "string option"
  parents :: "ancestor list"
  previous_siblings :: "string list"
  contenteditable :: "string option"
  container_headings :: "string list option"

definition placeholder :: "field_dom \<Rightarrow> string option" where
  \<comment> \<open>\<open>element.placeholder\<close>: \<open>input\<close> and \<open>textarea\<close> elements have this property,
      which reflects the attribute and is the empty string when the attribute is
      missing; on any other element it is \<open>undefined\<close> (\<open>None\<close>)\<close>
  "placeholder element =
     (if field_tag element = ''INPUT'' \<or> field_tag element = ''TEXTAREA''
      then Some (case placeholder_attribute element of None \<Rightarrow> [] | Some p \<Rightarrow> p)
      else None)"

definition label_text :: "ancestor \<Rightarrow> string" where
  \<comment> \<open>\<open>labelElement.textContent.trim()\<close>, empty when \<open>labelElement\<close> is null\<close>
  "label_text parent = (case first_label parent of None \<Rightarrow> [] | Some textContent \<Rightarrow> trim textContent)"

fun parent_walk :: "ancestor list \<Rightarrow> string" where
  \<comment> \<open>the loop over \<open>parent\<close>: the body ends the walk when the walk moves to it\<close>
  "parent_walk [] = []"
| "parent_walk (parent # rest) =
     (if label_text parent \<noteq> [] then label_text parent
      else (case rest of
              [] \<Rightarrow> []
            | up # others \<Rightarrow> if is_body up then [] else parent_walk rest))"

fun sibling_walk :: "string list \<Rightarrow> string" where
  \<comment> \<open>the loop over \<open>prevElement\<close>\<close>
  "sibling_walk [] = []"
| "sibling_walk (prevElement # others) =
     (if trim prevElement \<noteq> [] then trim prevElement else sibling_walk others)"

text \<open>
  \<open>detectFormQuestion\<close>: the result is the value the promise is fulfilled with
  (\<open>Inr\<close>) or the error it is rejected with (\<open>Inl\<close>). The one statement of the
  function that can raise on a non-null element is the label query, which runs when
  the id is not empty; \<open>label\<close> is its result.
\<close>

definition detectFormQuestion :: "field_dom \<Rightarrow> js_error + string" where
  "detectFormQuestion element =
     (case (if elem_id element \<noteq> [] then label_for element else Inr None) of
        Inl err \<Rightarrow> Inl err
      | Inr label \<Rightarrow> Inr
     (let question = [];
          question =
            (if elem_id element \<noteq> []
             then (case label of
                     None \<Rightarrow> question
                   | Some textContent \<Rightarrow>
                       if trim textContent \<noteq> [] then trim textContent else question)
             else question);
          question =
            (if question = []
             then (case placeholder element of
                     None \<Rightarrow> question
                   | Some p \<Rightarrow> if p \<noteq> [] then p else question)
             else question);
          question =
            (if question = []
             then (case aria_label element of
                     None \<Rightarrow> question
                   | Some a \<Rightarrow> if a \<noteq> [] then a else question)
             else question);
          question = (if question = [] then parent_walk (parents element) else question);
          question =
            (if question = [] then sibling_walk (previous_siblings element) else question);
          question =
            (if question = [] \<and> contenteditable element = Some ''true''
             then (case container_headings element of
                     None \<Rightarrow> question
                   | Some headings \<Rightarrow>
                       (case headings of [] \<Rightarrow> question | heading # others \<Rightarrow> trim heading))
             else question)
      in question))"

text \<open>
  The question inferrer as the specification words it: the first non-empty candidate
  of six, in their order of priority. The label candidate is the trimmed text of the
  label that the query finds for a non-empty id. The placeholder candidate is the
  placeholder of an input or a textarea, as it is. The ancestor candidate looks at
  the parent and then at the further ancestors below the document body.
  \<open>attribute_candidate\<close> is the second candidate read as the \<open>placeholder\<close>
  attribute of any field, and \<open>detectFormQuestion_claimed\<close> is the priority order
  with that reading.
\<close>

definition first_nonempty :: "string list \<Rightarrow> string" where
  "first_nonempty candidates =
     (case List.find (\<lambda>c. c \<noteq> []) candidates of None \<Rightarrow> [] | Some c \<Rightarrow> c)"

definition label_candidate :: "field_dom \<Rightarrow> string" where
  "label_candidate e =
     (if elem_id e = [] then []
      else (case label_for e of
              Inl err \<Rightarrow> []
            | Inr None \<Rightarrow> []
            | Inr (Some textContent) \<Rightarrow> trim textContent))"

definition placeholder_candidate :: "field_dom \<Rightarrow> string" where
  "placeholder_candidate e =
     (if field_tag e \<in> {''INPUT'', ''TEXTAREA''}
      then (case placeholder_attribute e of None \<Rightarrow> [] | Some p \<Rightarrow> p)
      else [])"

definition attribute_candidate :: "field_dom \<Rightarrow> string" where
  "attribute_candidate e = (case placeholder_attribute e of None \<Rightarrow> [] | Some p \<Rightarrow> p)"

definition aria_candidate :: "field_dom \<Rightarrow> string" where
  "aria_candidate e = (case aria_label e of None \<Rightarrow> [] | Some a \<Rightarrow> a)"

definition ancestor_candidate :: "field_dom \<Rightarrow> string" where
  "ancestor_candidate e =
     (case parents e of
        [] \<Rightarrow> []
      | parent # rest \<Rightarrow>
          first_nonempty
            (map (\<lambda>a. case first_label a of None \<Rightarrow> [] | Some textContent \<Rightarrow> trim textContent)
               (parent # takeWhile (\<lambda>a. \<not> is_body a) rest)))"

definition sibling_candidate :: "field_dom \<Rightarrow> string" where
  "sibling_candidate e = first_nonempty (map trim (previous_siblings e))"

definition heading_candidate :: "field_dom \<Rightarrow> string" where
  "heading_candidate e =
     (if contenteditable e = Some ''true''
      then (case container_headings e of
              None \<Rightarrow> []
            | Some headings \<Rightarrow> (case headings of [] \<Rightarrow> [] | heading # others \<Rightarrow> trim heading))
      else [])"

definition detectFormQuestion_spec :: "field_dom \<Rightarrow> string" where
  "detectFormQuestion_spec e =
     first_nonempty
       [label_candidate e, placeholder_candidate e, aria_candidate e, ancestor_candidate e,
        sibling_candidate e, heading_candidate e]"

definition detectFormQuestion_claimed :: "field_dom \<Rightarrow> string" where
  "detectFormQuestion_claimed e =
     first_nonempty
       [label_candidate e, attribute_candidate e, aria_candidate e, ancestor_candidate e,
        sibling_candidate e, heading_candidate e]"

text \<open>
  Fields to run the inferrer on. An input with the placeholder \<open>Enter your name\<close>,
  no id and no aria-label, in a form with a heading and after a sibling with text. An
  input with the id \<open>email\<close>, a label for it, a placeholder and an aria-label. A
  \<open>div contenteditable="true"\<close> with a \<open>placeholder\<close> attribute and nothing else
  around it. A \<open>div contenteditable="true"\<close> that holds a prompt, under a parent
  with no label or heading and after a sibling with no text. An input whose id is
  \<open>a"b\<close>, for which the label query raises.
\<close>

definition name_input :: field_dom where
  "name_input =
     \<lparr>field_tag = ''INPUT'', elem_id = [], label_for = Inr None,
      placeholder_attribute = Some ''Enter your name'', aria_label = None,
      parents = [\<lparr>is_body = True, first_label = Some ''Sign up''\<rparr>],
      previous_siblings = [''First''], contenteditable = None, container_headings = None\<rparr>"

definition email_input :: field_dom where
  "email_input =
     \<lparr>field_tag = ''INPUT'', elem_id = ''email'', label_for = Inr (Some '' Email address ''),
      placeholder_attribute = Some ''you@example.com'', aria_label = Some ''Mail'',
      parents = [\<lparr>is_body = True, first_label = Some ''Sign up''\<rparr>],
      previous_siblings = [''First''], contenteditable = None, container_headings = None\<rparr>"

definition comment_box :: field_dom where
  "comment_box =
     \<lparr>field_tag = ''DIV'', elem_id = [], label_for = Inr None,
      placeholder_attribute = Some ''Write a comment'', aria_label = None,
      parents = [\<lparr>is_body = True, first_label = None\<rparr>],
      previous_siblings = [], contenteditable = Some ''true'', container_headings = Some []\<rparr>"

definition story_box :: field_dom where
  "story_box =
     \<lparr>field_tag = ''DIV'', elem_id = [], label_for = Inr None,
      placeholder_attribute = None, aria_label = None,
      parents = [\<lparr>is_body = False, first_label = None\<rparr>,
        \<lparr>is_body = True, first_label = Some ''Shop''\<rparr>],
      previous_siblings = ['' ''], contenteditable = Some ''true'',
      container_headings = Some ['' Tell us more '', ''Other'']\<rparr>"

definition invalid_selector :: js_error where
  "invalid_selector = SyntaxError ''Failed to execute querySelector on Document''"

definition quoted_id_input :: field_dom where
  "quoted_id_input =
     \<lparr>field_tag = ''INPUT'', elem_id = ''a'' @ [CHR 0x22] @ ''b'',
      label_for = Inl invalid_selector,
      placeholder_attribute = Some ''Enter your name'', aria_label = None,
      parents = [], previous_siblings = [], contenteditable = None, container_headings = None\<rparr>"

section \<open>The background script: the chat service client\<close>

text \<open>
  The transcript that the service returns for a conversation, as far as
  \<open>extractAnswer\<close> reads it. A property that is missing or \<open>null\<close> is \<open>None\<close>; an
  array holds objects or \<open>null\<close> (\<open>None\<close>). Values of other JSON kinds at these
  places are outside the model.
\<close>

record content_entry =
  entry_text :: "string option"

record chat_message =
  content :: "content_entry option list option"

record transcript =
  chat_messages :: "chat_message option list option"

definition extractAnswer :: "transcript option \<Rightarrow> js_error + string" where
  "extractAnswer response =
     (case response of
        None \<Rightarrow> Inr []
      | Some r \<Rightarrow>
     (case chat_messages r of
        None \<Rightarrow> Inr []
      | Some messages \<Rightarrow>
          if length messages < 2 then Inr []
          else
     (case messages ! 1 of
        None \<Rightarrow> Inl (TypeError ''Cannot read properties of null (reading 'content')'')
      | Some second \<Rightarrow>
     (case content second of
        None \<Rightarrow> Inr []
      | Some entries \<Rightarrow>
          if length entries < 1 then Inr []
          else
     (case entries ! 0 of
        None \<Rightarrow> Inl (TypeError ''Cannot read properties of null (reading 'text')'')
      | Some entry \<Rightarrow>
     (case entry_text entry of
        None \<Rightarrow> Inr []
      | Some t \<Rightarrow> if t = [] then Inr [] else Inr t))))))"

text \<open>
  The service, as one request of the extension meets it: the outcome of each of the
  four calls. The body of the organizations call is the list of organizations, that of
  the call that creates a conversation is the \<open>uuid\<close> property of the JSON it returns
  (the script awaits the JSON and drops it), that of the completion call is its text,
  that of the conversation call is the transcript. What the runtime supplies is a
  record as well: the two results of \<open>crypto.randomUUID()\<close> and the text of
  \<open>new Date().toLocaleString()\<close>.
\<close>

record organization =
  org_uuid :: string
  org_name :: string

record backend =
  organizations :: "organization list fetched"
  created :: "string fetched"
  completion :: "string fetched"
  conversation :: "transcript option fetched"

record runtime =
  conversation_uuid :: string
  file_uuid :: string
  locale_date :: string

datatype effect = Fetch http_request | Sleep nat

definition BASE_URL :: string where
  "BASE_URL = ''https://claude.ai''"

definition organizations_url :: string where
  "organizations_url = BASE_URL @ ''/api/organizations''"

definition chat_list_url :: "string \<Rightarrow> string" where
  \<comment> \<open>\<open>CLAUDE_API.CHAT_LIST\<close> with \<open>{orgId}\<close> replaced\<close>
  "chat_list_url orgId = BASE_URL @ ''/api/organizations/'' @ orgId @ ''/chat_conversations''"

definition chat_url :: "string \<Rightarrow> string \<Rightarrow> string" where
  \<comment> \<open>\<open>CLAUDE_API.CHAT\<close> with \<open>{orgId}\<close> and \<open>{chatId}\<close> replaced\<close>
  "chat_url orgId chatId =
     BASE_URL @ ''/api/organizations/'' @ orgId @ ''/chat_conversations/'' @ chatId @
     ''?tree=True&rendering_mode=messages''"

definition send_message_url :: "string \<Rightarrow> string \<Rightarrow> string" where
  \<comment> \<open>\<open>CLAUDE_API.SEND_MESSAGE\<close> with \<open>{orgId}\<close> and \<open>{chatId}\<close> replaced\<close>
  "send_message_url orgId chatId =
     BASE_URL @ ''/api/organizations/'' @ orgId @ ''/chat_conversations/'' @ chatId @
     ''/completion''"

definition raised :: "'a fetched \<Rightarrow> string \<Rightarrow> js_error + 'a" where
  \<comment> \<open>\<open>await fetch(...)\<close> followed by \<open>if (!response.ok) throw new Error(failure + status)\<close>\<close>
  "raised response failure =
     (case response of
        Rejected m \<Rightarrow> Inl (TypeError m)
      | Responded status body \<Rightarrow>
          if \<not> ok status then Inl (Error (failure @ decimal status)) else Inr body)"

definition fetchOrganizations :: "backend \<Rightarrow> effect list \<times> (js_error + organization list)" where
  "fetchOrganizations b =
     ([Fetch \<lparr>req_method = ''GET'', req_url = organizations_url, req_body = NoBody\<rparr>],
      raised (organizations b) ''Failed to fetch organizations: '')"

definition default_name :: "runtime \<Rightarrow> string" where
  "default_name rt = ''Form Assistant - '' @ locale_date rt"

definition createConversation ::
  "runtime \<Rightarrow> backend \<Rightarrow> string \<Rightarrow> string option \<Rightarrow> string option \<Rightarrow>
     effect list \<times> (js_error + string)" where
  "createConversation rt b orgId projId name =
     (let conversationName =
            (case name of None \<Rightarrow> default_name rt
             | Some n \<Rightarrow> if n \<noteq> [] then n else default_name rt);
          uuid = conversation_uuid rt
      in ([Fetch \<lparr>req_method = ''POST'', req_url = chat_list_url orgId,
                   req_body = ConversationBody conversationName projId uuid\<rparr>],
          (case raised (created b) ''Failed to create conversation: '' of
             Inl e \<Rightarrow> Inl e
           | Inr json \<Rightarrow> Inr uuid)))"

definition image_match :: "string \<Rightarrow> (nat \<times> string) option" where
  \<comment> \<open>\<open>message.match(/<image>(.*?)<\/image>/s)\<close>: the index of the match and its
      group, from the leftmost \<open><image>\<close> to the nearest \<open></image>\<close> after it\<close>
  "image_match msg =
     (case indexOf msg ''<image>'' of
        None \<Rightarrow> None
      | Some i \<Rightarrow>
          (case indexOf (drop (i + 7) msg) ''</image>'' of
             None \<Rightarrow> None
           | Some j \<Rightarrow> Some (i, take j (drop (i + 7) msg))))"

definition screenshot_attachment :: "runtime \<Rightarrow> string \<Rightarrow> attachment" where
  "screenshot_attachment rt base64Data =
     \<lparr>file_name = ''screenshot.png'', file_type = ''image/png'',
      file_size = (3 * length base64Data + 3) div 4, extracted_content = [],
      file_id = file_uuid rt, media_type = ''image'', width = 1200, height = 800,
      display_width = 1200, display_height = 800, data = base64Data\<rparr>"

definition sendMessage ::
  "runtime \<Rightarrow> backend \<Rightarrow> string \<Rightarrow> string \<Rightarrow> string \<Rightarrow> effect list \<times> (js_error + string)" where
  "sendMessage rt b orgId conversationId msg =
     (let hasImage = str_includes msg ''<image>'';
          (attachments, msg) =
            (if hasImage
             then (case image_match msg of
                     None \<Rightarrow> ([], msg)
                   | Some (i, captured) \<Rightarrow>
                       if captured \<noteq> []
                       then ([screenshot_attachment rt (trim captured)],
                             take i msg @ drop (i + 7 + length captured + 8) msg)
                       else ([], msg))
             else ([], msg))
      in ([Fetch \<lparr>req_method = ''POST'', req_url = send_message_url orgId conversationId,
                   req_body = CompletionBody msg (if hasImage then attachments else [])\<rparr>],
          raised (completion b) ''Failed to send message: ''))"

record ask_result =
  answer :: string
  conversationId :: string
  chatUrl :: string
  newConversationCreated :: bool

text \<open>
  \<open>askClaude\<close> with the global \<open>currentOrgId\<close> as a parameter. The result is the
  effects in their order, the new \<open>currentOrgId\<close>, and the value the promise is
  fulfilled with (\<open>Inr\<close>) or the error it is rejected with (\<open>Inl\<close>): the \<open>catch\<close> of
  the function logs the error and throws it again.
\<close>

definition organization_id ::
  "backend \<Rightarrow> string option \<Rightarrow> effect list \<times> (js_error + string)" where
  \<comment> \<open>the block \<open>if (!currentOrgId) { ... }\<close>\<close>
  "organization_id b currentOrgId =
     (if (case currentOrgId of None \<Rightarrow> True | Some i \<Rightarrow> i = [])
      then (case fetchOrganizations b of
              (fx, Inl e) \<Rightarrow> (fx, Inl e)
            | (fx, Inr orgs) \<Rightarrow>
                (case orgs of
                   [] \<Rightarrow> (fx, Inl (Error ''No organizations found''))
                 | org # others \<Rightarrow> (fx, Inr (org_uuid org))))
      else ([], Inr (case currentOrgId of None \<Rightarrow> [] | Some i \<Rightarrow> i)))"

definition askClaude ::
  "runtime \<Rightarrow> backend \<Rightarrow> string option \<Rightarrow> string \<Rightarrow> string option \<Rightarrow> string option \<Rightarrow>
     effect list \<times> string option \<times> (js_error + ask_result)" where
  "askClaude rt b currentOrgId question projectId conversationTitle =
     (case organization_id b currentOrgId of
        (fx0, Inl e) \<Rightarrow> (fx0, currentOrgId, Inl e)
      | (fx0, Inr orgId) \<Rightarrow>
     (let conversationName =
            (case conversationTitle of None \<Rightarrow> default_name rt
             | Some t \<Rightarrow> if t \<noteq> [] then t else default_name rt)
      in
     (case createConversation rt b orgId projectId (Some conversationName) of
        (fx1, Inl e) \<Rightarrow> (fx0 @ fx1, Some orgId, Inl e)
      | (fx1, Inr convId) \<Rightarrow>
     (case sendMessage rt b orgId convId question of
        (fx2, Inl e) \<Rightarrow> (fx0 @ fx1 @ fx2, Some orgId, Inl e)
      | (fx2, Inr response) \<Rightarrow>
     (let fx3 = [Sleep 5000,
                 Fetch \<lparr>req_method = ''GET'', req_url = chat_url orgId convId,
                        req_body = NoBody\<rparr>]
      in
     (case raised (conversation b) ''Failed to retrieve messages: '' of
        Inl e \<Rightarrow> (fx0 @ fx1 @ fx2 @ fx3, Some orgId, Inl e)
      | Inr chatResponse \<Rightarrow>
     (case extractAnswer chatResponse of
        Inl e \<Rightarrow> (fx0 @ fx1 @ fx2 @ fx3, Some orgId, Inl e)
      | Inr a \<Rightarrow>
          (fx0 @ fx1 @ fx2 @ fx3, Some orgId,
           Inr \<lparr>answer = a, conversationId = convId,
                chatUrl = BASE_URL @ ''/chat/'' @ convId,
                newConversationCreated = True\<rparr>))))))))"

text \<open>The three requests of one \<open>askClaude\<close> call, by name.\<close>

definition conversation_request ::
  "string \<Rightarrow> string \<Rightarrow> string option \<Rightarrow> string \<Rightarrow> effect" where
  "conversation_request orgId name projId uuid =
     Fetch \<lparr>req_method = ''POST'', req_url = chat_list_url orgId,
            req_body = ConversationBody name projId uuid\<rparr>"

definition completion_request ::
  "string \<Rightarrow> string \<Rightarrow> string \<Rightarrow> attachment list \<Rightarrow> effect" where
  "completion_request orgId chatId prompt attachments =
     Fetch \<lparr>req_method = ''POST'', req_url = send_message_url orgId chatId,
            req_body = CompletionBody prompt attachments\<rparr>"

definition transcript_request :: "string \<Rightarrow> string \<Rightarrow> effect" where
  "transcript_request orgId chatId =
     Fetch \<lparr>req_method = ''GET'', req_url = chat_url orgId chatId, req_body = NoBody\<rparr>"

definition organizations_request :: effect where
  "organizations_request =
     Fetch \<lparr>req_method = ''GET'', req_url = organizations_url, req_body = NoBody\<rparr>"

definition conversation_name :: "runtime \<Rightarrow> string option \<Rightarrow> string" where
  \<comment> \<open>\<open>conversationTitle || `Form Assistant - ${new Date().toLocaleString()}`\<close>\<close>
  "conversation_name rt conversationTitle =
     (case conversationTitle of None \<Rightarrow> default_name rt
      | Some t \<Rightarrow> if t \<noteq> [] then t else default_name rt)"

text \<open>
  A service that answers every call with a 2xx status, and a transcript whose second
  message carries the text \<open>Ada\<close>.
\<close>

definition good_transcript :: transcript where
  "good_transcript =
     \<lparr>chat_messages = Some
        [Some \<lparr>content = Some [Some \<lparr>entry_text = Some ''What is your name?''\<rparr>]\<rparr>,
         Some \<lparr>content = Some [Some \<lparr>entry_text = Some ''Ada''\<rparr>]\<rparr>]\<rparr>"

definition good_backend :: backend where
  "good_backend =
     \<lparr>organizations = Responded 200 [\<lparr>org_uuid = ''org-1'', org_name = ''Ada''\<rparr>],
      created = Responded 201 ''srv-7'',
      completion = Responded 200 ''data: {}'',
      conversation = Responded 200 (Some good_transcript)\<rparr>"

definition a_runtime :: runtime where
  "a_runtime = \<lparr>conversation_uuid = ''uuid-1'', file_uuid = ''uuid-2'', locale_date = ''1/1/2025''\<rparr>"

section \<open>The content script: the trigger button\<close>

text \<open>
  \<open>createEnhancedPrompt\<close> of the context handler with screenshots, whose
  \<open>capturePageContext\<close> resolves to an object with the text context and the
  screenshot (\<open>None\<close> for \<open>null\<close>).
\<close>

record page_context =
  textContext :: string
  screenshotData :: "string option"

definition prompt_instructions :: string where
  "prompt_instructions =
     ''## Instructions:'' @ [nl] @
     ''1. Look at the screenshot and webpage context to understand what I'm filling out.'' @ [nl] @
     ''2. Provide a direct, focused answer to my question based on the context.'' @ [nl] @
     ''3. IMPORTANT: Answer ONLY the question without any introductions, explanations, or conclusions.'' @ [nl] @
     ''4. Do not include phrases like '' @ [CHR 0x22] @ ''Based on the context'' @ [CHR 0x22] @
     '' or '' @ [CHR 0x22] @ ''According to the webpage'' @ [CHR 0x22] @ ''.'' @ [nl] @
     ''5. Keep your answer concise and to the point.'' @ [nl] @
     ''6. Only give me the exact text that should be entered into the form field.'' @ [nl] @
     ''7. If you're uncertain about any aspect, make a reasonable best effort.'' @ [nl, nl] @
     ''Just provide the exact text for the form field:''"

definition createEnhancedPrompt :: "string \<Rightarrow> page_context \<Rightarrow> string" where
  "createEnhancedPrompt question pageContext =
     (let prompt = ''I need help filling out a form field. I'll provide context from the current webpage and my specific question.'';
          prompt =
            (case screenshotData pageContext of
               None \<Rightarrow> prompt
             | Some shot \<Rightarrow>
                 if shot \<noteq> []
                 then prompt @ [nl, nl] @ ''## Screenshot of Current Page:'' @ [nl] @
                      ''<image>'' @ [nl] @ shot @ [nl] @ ''</image>''
                 else prompt)
      in prompt @ [nl, nl] @ ''## Current Webpage Context:'' @ [nl] @
         (if textContext pageContext \<noteq> [] then textContext pageContext
          else ''No text context available from the current page.'') @ [nl, nl] @
         ''## My Question:'' @ [nl] @ question @ [nl, nl] @ prompt_instructions)"

text \<open>
  The state of a page as the content script sees and changes it: the elements by
  reference and what \<open>detectFormQuestion\<close> reads around each, the globals
  \<open>activeElement\<close>, \<open>isProcessing\<close> and \<open>currentConversationUrl\<close>, the URLs opened
  with \<open>window.open\<close>, the notifications shown, the \<open>askClaude\<close> messages sent to
  the background script, the pending timers with the time they are due, and the clock
  in milliseconds. The look of the button (its class, spinner and title) is not part
  of the state.
\<close>

record settings =
  defaultProject :: "string option"
  autoDetect :: bool

record ask_message =
  msg_question :: string
  msg_projectId :: "string option"
  msg_conversationTitle :: "string option"

datatype timer = ClearConversationUrl | InsertText nat string

record page =
  elements :: "nat \<Rightarrow> element"
  surroundings :: "nat \<Rightarrow> field_dom"
  activeElement :: "nat option"
  isProcessing :: bool
  currentConversationUrl :: "string option"
  opened :: "string list"
  notifications :: "string list"
  sent :: "ask_message list"
  timers :: "(nat \<times> timer) list"
  clock :: nat

definition showNotification :: "string \<Rightarrow> page \<Rightarrow> page" where
  "showNotification m st = st\<lparr>notifications := notifications st @ [m]\<rparr>"

definition finish :: "page \<Rightarrow> page" where
  \<comment> \<open>the \<open>finally\<close> block of the handler\<close>
  "finish st =
     st\<lparr>isProcessing := False,
        timers := timers st @ [(clock st + 10000, ClearConversationUrl)]\<rparr>"

definition caught :: "string \<Rightarrow> page \<Rightarrow> page" where
  \<comment> \<open>the \<open>catch\<close> block of the handler, for an error with the message \<open>m\<close>\<close>
  "caught m st =
     showNotification
       (''Error: '' @ (if m \<noteq> [] then m else ''Could not get response from Claude'')) st"

definition cancelled :: "page \<Rightarrow> page" where
  \<comment> \<open>the block \<open>if (!question) { ... return; }\<close>\<close>
  "cancelled st = st\<lparr>isProcessing := False, currentConversationUrl := None\<rparr>"

definition null_error :: string where
  "null_error = ''Cannot read properties of null''"

fun fire :: "timer \<Rightarrow> page \<Rightarrow> page" where
  \<comment> \<open>the callback of a timer\<close>
  "fire ClearConversationUrl st = st\<lparr>currentConversationUrl := None\<rparr>"
| "fire (InsertText a txt) st =
     st\<lparr>elements := (elements st)(a := insertTextIntoElement (elements st a) txt)\<rparr>"

definition run_timers :: "nat \<Rightarrow> page \<Rightarrow> page" where
  \<comment> \<open>the clock moves to \<open>t\<close>; the timers due by then run, in the order they are due\<close>
  "run_timers t st =
     foldl (\<lambda>s (due, tm). fire tm s)
       (st\<lparr>clock := t, timers := filter (\<lambda>(due, tm). t < due) (timers st)\<rparr>)
       (sort_key fst (filter (\<lambda>(due, tm). due \<le> t) (timers st)))"

text \<open>
  The listener of the content script for \<open>claude-airtable-request\<close>, from the
  response of the background script on: \<open>element\<close> is the element of the request
  (\<open>None\<close> for \<open>null\<close>, when the cell holds no input). With an answer the listener
  dispatches \<open>claude-response-ready\<close> on the document, which runs the listener of
  \<open>airtable-handler.js\<close>, and then calls \<open>insertTextIntoElement\<close>.
  \<open>airtable_answered\<close> is the listener of the first script, \<open>airtable_answered2\<close>
  that of the second script.
\<close>

definition airtable_answered :: "nat option \<Rightarrow> ask_result option \<Rightarrow> page \<Rightarrow> page" where
  "airtable_answered element response st =
     (case response of
        None \<Rightarrow> showNotification ''Error getting response from Claude. Please try again.'' st
      | Some res \<Rightarrow>
          if answer res = []
          then showNotification ''Error getting response from Claude. Please try again.'' st
          else (case element of
                  None \<Rightarrow> st
                | Some a \<Rightarrow>
                    st\<lparr>elements := (elements st)
                         (a := claude_response_ready (elements st a) (answer res)),
                       timers := timers st @ [(clock st + 50, InsertText a (answer res))]\<rparr>))"

definition airtable_answered2 :: "nat option \<Rightarrow> ask_result option \<Rightarrow> page \<Rightarrow> page" where
  "airtable_answered2 element response st =
     (case response of
        None \<Rightarrow> showNotification ''Error getting response from Claude. Please try again.'' st
      | Some res \<Rightarrow>
          if answer res = []
          then showNotification ''Error getting response from Claude. Please try again.'' st
          else (case element of
                  None \<Rightarrow> st
                | Some a \<Rightarrow>
                    st\<lparr>elements := (elements st)
                         (a := insertTextIntoElement2
                            (claude_response_ready (elements st a) (answer res)) (answer res))\<rparr>))"

text \<open>
  The handler is an \<open>async\<close> function: it runs to its first \<open>await\<close> and is resumed
  when the awaited promise settles. \<open>pc\<close> names the \<open>await\<close> a call is suspended at,
  with the local variables that are live there; \<open>input\<close> is what settles a promise:
  a timer (\<open>Timeout\<close>), the stored settings, the text of the question dialog, the
  page context, the response of the background script (\<open>None\<close> for \<open>undefined\<close>),
  or a rejection with the message of its error. \<open>handleClaudeButtonClick\<close> is the
  part of the first script's handler up to the first \<open>await\<close>, \<open>resume\<close> the part
  from one \<open>await\<close> to the next; the result \<open>None\<close> says that the call has
  returned. An input that does not settle the pending \<open>await\<close> leaves the call
  suspended.
\<close>

datatype pc =
    AfterClick
  | AwaitSettings
  | AwaitPrompt settings
  | AwaitContext settings string
  | AwaitResponse
  | AwaitFocus string

datatype input =
    Timeout
  | Settings settings
  | Prompt string
  | Context page_context
  | Response "ask_result option"
  | Rejection string

definition needs_click :: "element \<Rightarrow> bool" where
  "needs_click e =
     (''form-control'' \<in> set (classList e) \<or> hasAttribute e ''data-component'' \<or>
      closest e editor_selectors)"

definition handleClaudeButtonClick :: "page \<Rightarrow> page \<times> pc option" where
  "handleClaudeButtonClick st =
     (if isProcessing st \<and>
         (case currentConversationUrl st of None \<Rightarrow> False | Some url \<Rightarrow> url \<noteq> [])
      then (st\<lparr>opened := opened st @
                 [case currentConversationUrl st of None \<Rightarrow> [] | Some url \<Rightarrow> url]\<rparr>, None)
      else (case activeElement st of
              None \<Rightarrow> (st, None)
            | Some a \<Rightarrow>
                if needs_click (elements st a)
                then (st\<lparr>isProcessing := True\<rparr>, Some AfterClick)
                else (st\<lparr>isProcessing := True\<rparr>, Some AwaitSettings)))"

definition detected :: "settings \<Rightarrow> page \<Rightarrow> js_error + string" where
  \<comment> \<open>\<open>question\<close> after the block \<open>if (settings.autoDetect) { ... }\<close>, or the error
      raised in it: by \<open>detectFormQuestion\<close>, or by reading the id of \<open>activeElement\<close>
      when that is null\<close>
  "detected s st =
     (if autoDetect s
      then (case activeElement st of
              None \<Rightarrow> Inl (TypeError null_error)
            | Some a \<Rightarrow> detectFormQuestion (surroundings st a))
      else Inr [])"

definition store_url :: "ask_result \<Rightarrow> page \<Rightarrow> page" where
  \<comment> \<open>\<open>if (response.chatUrl) { currentConversationUrl = response.chatUrl; }\<close>\<close>
  "store_url res st =
     (if chatUrl res \<noteq> [] then st\<lparr>currentConversationUrl := Some (chatUrl res)\<rparr> else st)"

fun resume :: "pc \<Rightarrow> input \<Rightarrow> page \<Rightarrow> page \<times> pc option" where
  "resume AfterClick Timeout st =
     (case activeElement st of
        None \<Rightarrow> (finish (caught null_error st), None)
      | Some a \<Rightarrow> (st, Some AwaitSettings))"
| "resume AwaitSettings (Settings s) st =
     (case detected s st of
        Inl e \<Rightarrow> (finish (caught (error_message e) st), None)
      | Inr question \<Rightarrow>
          if question = [] then (st, Some (AwaitPrompt s)) else (st, Some (AwaitContext s question)))"
| "resume AwaitSettings (Rejection m) st = (finish (caught m st), None)"
| "resume (AwaitPrompt s) (Prompt question) st =
     (if question = [] then (finish (cancelled st), None)
      else (st, Some (AwaitContext s question)))"
| "resume (AwaitContext s question) (Context pageContext) st =
     (st\<lparr>sent := sent st @
          [\<lparr>msg_question = createEnhancedPrompt question pageContext,
            msg_projectId = defaultProject s,
            msg_conversationTitle = Some (generateConversationTitle question)\<rparr>]\<rparr>,
      Some AwaitResponse)"
| "resume (AwaitContext s question) (Rejection m) st = (finish (caught m st), None)"
| "resume AwaitResponse (Response r) st =
     (case r of
        None \<Rightarrow>
          (finish (showNotification ''Error getting response from Claude. Please try again.'' st),
           None)
      | Some res \<Rightarrow>
          if answer res = []
          then (finish (showNotification
                  ''Error getting response from Claude. Please try again.'' st), None)
          else (case activeElement (store_url res st) of
                  None \<Rightarrow>
                    (finish (showNotification ''Error: The form field is no longer available''
                       (store_url res st)), None)
                | Some a \<Rightarrow>
                    if inDocument (elements st a)
                    then (store_url res st, Some (AwaitFocus (answer res)))
                    else (finish (showNotification
                            ''Error: The form field is no longer available''
                            (store_url res st)), None)))"
| "resume AwaitResponse (Rejection m) st = (finish (caught m st), None)"
| "resume (AwaitFocus a) Timeout st =
     (finish (showNotification ''Claude has filled the field successfully!''
        (case activeElement st of
           None \<Rightarrow> st
         | Some e \<Rightarrow> st\<lparr>timers := timers st @ [(clock st + 50, InsertText e a)]\<rparr>)), None)"
| "resume p i st = (st, Some p)"

text \<open>
  The awaits of the first script's handler in the order in which a call reaches them;
  a call that has returned comes last.
\<close>

fun await_order :: "pc option \<Rightarrow> nat" where
  "await_order (Some AfterClick) = 0"
| "await_order (Some AwaitSettings) = 1"
| "await_order (Some (AwaitPrompt s)) = 2"
| "await_order (Some (AwaitContext s question)) = 3"
| "await_order (Some AwaitResponse) = 4"
| "await_order (Some (AwaitFocus a)) = 5"
| "await_order None = 6"

text \<open>
  The handler of the second script of \<open>content.js\<close>: it does not click the field,
  captures no page context, sends the question as it is and without a title, and
  calls its own \<open>insertTextIntoElement\<close>, which writes at once.
\<close>

definition handleClaudeButtonClick2 :: "page \<Rightarrow> page \<times> pc option" where
  "handleClaudeButtonClick2 st =
     (if isProcessing st \<and>
         (case currentConversationUrl st of None \<Rightarrow> False | Some url \<Rightarrow> url \<noteq> [])
      then (st\<lparr>opened := opened st @
                 [case currentConversationUrl st of None \<Rightarrow> [] | Some url \<Rightarrow> url]\<rparr>, None)
      else (case activeElement st of
              None \<Rightarrow> (st, None)
            | Some a \<Rightarrow> (st\<lparr>isProcessing := True\<rparr>, Some AwaitSettings)))"

definition ask2 :: "settings \<Rightarrow> string \<Rightarrow> page \<Rightarrow> page \<times> pc option" where
  \<comment> \<open>the call of \<open>sendMessageToBackground\<close> in the second script\<close>
  "ask2 s question st =
     (st\<lparr>sent := sent st @
          [\<lparr>msg_question = question, msg_projectId = defaultProject s,
            msg_conversationTitle = None\<rparr>]\<rparr>,
      Some AwaitResponse)"

fun resume2 :: "pc \<Rightarrow> input \<Rightarrow> page \<Rightarrow> page \<times> pc option" where
  "resume2 AwaitSettings (Settings s) st =
     (case detected s st of
        Inl e \<Rightarrow> (finish (caught (error_message e) st), None)
      | Inr question \<Rightarrow>
          if question = [] then (st, Some (AwaitPrompt s)) else ask2 s question st)"
| "resume2 AwaitSettings (Rejection m) st = (finish (caught m st), None)"
| "resume2 (AwaitPrompt s) (Prompt question) st =
     (if question = [] then (finish (cancelled st), None) else ask2 s question st)"
| "resume2 AwaitResponse (Response r) st =
     (case r of
        None \<Rightarrow>
          (finish (showNotification ''Error getting response from Claude. Please try again.'' st),
           None)
      | Some res \<Rightarrow>
          if answer res = []
          then (finish (showNotification
                  ''Error getting response from Claude. Please try again.'' st), None)
          else (finish (showNotification ''Claude has filled the field successfully!''
                  (case activeElement (store_url res st) of
                     None \<Rightarrow> store_url res st
                   | Some e \<Rightarrow>
                       (store_url res st)\<lparr>elements := (elements st)
                          (e := insertTextIntoElement2 (elements st e) (answer res))\<rparr>)), None))"
| "resume2 AwaitResponse (Rejection m) st = (finish (caught m st), None)"
| "resume2 p i st = (st, Some p)"

section \<open>The message channel between the two scripts\<close>

text \<open>
  The listener of the background script answers an \<open>askClaude\<close> message with
  \<open>askClaude(...).then(sendResponse)\<close> and returns \<open>true\<close>: \<open>sendResponse\<close> is
  called with the result when the promise is fulfilled, and is not called when it is
  rejected. \<open>onMessage_askClaude\<close> gives the effects, the new \<open>currentOrgId\<close> and
  the argument of \<open>sendResponse\<close>, \<open>None\<close> when it is never called.

  In the content script, \<open>sendMessageToBackground\<close> resolves with the response when
  the callback of \<open>chrome.runtime.sendMessage\<close> runs without
  \<open>chrome.runtime.lastError\<close>, and rejects with \<open>lastError\<close> otherwise. When no
  response is sent, what happens is up to the browser: \<open>lastError\<close> is the message
  of the error it then reports to the callback, \<open>None\<close> if it never calls it. The
  result is the input that resumes the handler, \<open>None\<close> if it stays suspended.
\<close>

definition onMessage_askClaude ::
  "runtime \<Rightarrow> backend \<Rightarrow> string option \<Rightarrow> ask_message \<Rightarrow>
     effect list \<times> string option \<times> ask_result option" where
  "onMessage_askClaude rt b currentOrgId request =
     (case askClaude rt b currentOrgId (msg_question request) (msg_projectId request)
             (msg_conversationTitle request) of
        (fx, org, Inl e) \<Rightarrow> (fx, org, None)
      | (fx, org, Inr result) \<Rightarrow> (fx, org, Some result))"

definition sendMessageToBackground :: "string option \<Rightarrow> ask_result option \<Rightarrow> input option" where
  "sendMessageToBackground lastError reply =
     (case reply of
        Some response \<Rightarrow> Some (Response (Some response))
      | None \<Rightarrow> (case lastError of None \<Rightarrow> None | Some m \<Rightarrow> Some (Rejection m)))"

text \<open>
  One request from the click to the return of the handler, with nothing else
  happening on the page in between: the environment supplies the settings, what the
  user types into the question dialog, the page context, the service and what the
  browser does with an unanswered message. An await of the handler on its own
  \<open>setTimeout\<close> is resumed when its delay has passed on the page, after the timers
  that are due by then; the other awaits are settled by the environment, and the time
  they take is left out.
\<close>

record environment =
  env_settings :: settings
  env_prompt :: string
  env_context :: page_context
  env_runtime :: runtime
  env_backend :: backend
  env_orgId :: "string option"
  env_lastError :: "string option"

definition input_for :: "environment \<Rightarrow> page \<Rightarrow> pc \<Rightarrow> input option" where
  "input_for env st p =
     (case p of
        AfterClick \<Rightarrow> Some Timeout
      | AwaitSettings \<Rightarrow> Some (Settings (env_settings env))
      | AwaitPrompt s \<Rightarrow> Some (Prompt (env_prompt env))
      | AwaitContext s q \<Rightarrow> Some (Context (env_context env))
      | AwaitResponse \<Rightarrow>
          (case sent st of
             [] \<Rightarrow> None
           | m # ms \<Rightarrow>
               sendMessageToBackground (env_lastError env)
                 (snd (snd (onMessage_askClaude (env_runtime env) (env_backend env)
                    (env_orgId env) (last (sent st))))))
      | AwaitFocus a \<Rightarrow> Some Timeout)"

definition delay_for :: "pc \<Rightarrow> nat" where
  \<comment> \<open>the delay of the handler's own \<open>setTimeout\<close> awaits: 100 ms after the click on the
      field, 50 ms after the focus\<close>
  "delay_for p = (case p of AfterClick \<Rightarrow> 100 | AwaitFocus a \<Rightarrow> 50 | _ \<Rightarrow> 0)"

definition elapse :: "nat \<Rightarrow> page \<Rightarrow> page" where
  \<comment> \<open>\<open>d\<close> milliseconds pass on the page\<close>
  "elapse d st = (if d = 0 then st else run_timers (clock st + d) st)"

definition proceed ::
  "(pc \<Rightarrow> input \<Rightarrow> page \<Rightarrow> page \<times> pc option) \<Rightarrow> environment \<Rightarrow> page \<times> pc option \<Rightarrow>
     page \<times> pc option" where
  "proceed step env state =
     (case state of
        (st, None) \<Rightarrow> (st, None)
      | (st, Some p) \<Rightarrow>
          (case input_for env st p of
             None \<Rightarrow> (st, Some p)
           | Some i \<Rightarrow> step p i (elapse (delay_for p) st)))"

definition click_request :: "environment \<Rightarrow> page \<Rightarrow> page \<times> pc option" where
  \<comment> \<open>the first script: at most six awaits\<close>
  "click_request env st =
     proceed resume env (proceed resume env (proceed resume env (proceed resume env
       (proceed resume env (proceed resume env (handleClaudeButtonClick st))))))"

definition click_request2 :: "environment \<Rightarrow> page \<Rightarrow> page \<times> pc option" where
  \<comment> \<open>the second script: at most three awaits\<close>
  "click_request2 env st =
     proceed resume2 env (proceed resume2 env (proceed resume2 env
       (handleClaudeButtonClick2 st)))"

text \<open>
  A page with one textarea (element 0, placeholder \<open>Summary\<close>) that is the active
  field, and the same page after the textarea has been removed from the document.
\<close>

definition a_textarea :: element where
  "a_textarea =
     \<lparr>tagName = ''TEXTAREA'', classList = [], attributes = [(''placeholder'', ''Summary'')],
      ancestors = [], elem_value = ''draft'', innerHTML = [], inDocument = True,
      dispatched = []\<rparr>"

definition a_field :: field_dom where
  "a_field =
     \<lparr>field_tag = ''TEXTAREA'', elem_id = [], label_for = Inr None,
      placeholder_attribute = Some ''Summary'', aria_label = None,
      parents = [], previous_siblings = [], contenteditable = None,
      container_headings = None\<rparr>"

definition a_page :: page where
  "a_page =
     \<lparr>elements = (\<lambda>i. a_textarea), surroundings = (\<lambda>i. a_field), activeElement = Some 0,
      isProcessing = False, currentConversationUrl = None, opened = [], notifications = [],
      sent = [], timers = [], clock = 0\<rparr>"

definition detached_page :: page where
  "detached_page = a_page\<lparr>elements := (\<lambda>i. a_textarea\<lparr>inDocument := False\<rparr>)\<rparr>"

text \<open>
  A page of a table whose element 0 is the search input of a cell, and a response of
  the background script with the answer \<open>Ada\<close>.
\<close>

definition airtable_page :: page where
  "airtable_page = a_page\<lparr>elements := (\<lambda>i. cell_search_input)\<rparr>"

definition an_answer :: ask_result where
  "an_answer =
     \<lparr>answer = ''Ada'', conversationId = ''uuid-1'',
      chatUrl = ''https://claude.ai/chat/uuid-1'', newConversationCreated = True\<rparr>"

definition an_environment :: environment where
  "an_environment =
     \<lparr>env_settings = \<lparr>defaultProject = None, autoDetect = True\<rparr>, env_prompt = [],
      env_context = \<lparr>textContext = ''# Page'', screenshotData = None\<rparr>,
      env_runtime = a_runtime, env_backend = good_backend, env_orgId = None,
      env_lastError = Some ''The message port closed before a response was received.''\<rparr>"

text \<open>
  A service whose organizations call answers with the status 500, and a transcript
  whose second message is \<open>null\<close>.
\<close>

definition failing_backend :: backend where
  "failing_backend = good_backend\<lparr>organizations := Responded 500 []\<rparr>"

definition null_transcript :: transcript where
  "null_transcript = \<lparr>chat_messages = Some [Some \<lparr>content = None\<rparr>, None]\<rparr>"

section \<open>Properties of the direct scrape\<close>

lemma replace_runs_absent:
  "c \<notin> set s \<Longrightarrow> 0 < k \<Longrightarrow> replace_runs c k r 0 s = s"
  by (induction s) auto

lemma split_nl_absent: "nl \<notin> set s \<Longrightarrow> split_nl s = [s]"
  by (induction s) auto

lemma trim_no_ws: "list_all (\<lambda>c. \<not> is_ws c) s \<Longrightarrow> trim s = s"
proof -
  assume a: "list_all (\<lambda>c. \<not> is_ws c) s"
  have d: "dropWhile is_ws t = t" if "list_all (\<lambda>c. \<not> is_ws c) t" for t
    using that by (cases t) auto
  have "list_all (\<lambda>c. \<not> is_ws c) (rev s)"
    using a by (simp add: list_all_iff)
  then show ?thesis
    using a by (simp add: trim_def d)
qed

lemma cleanPageContent_plain:
  assumes "list_all (\<lambda>c. \<not> is_ws c \<and> \<not> is_control c) s" and "10 < length s"
  shows "cleanPageContent s = s"
proof -
  have ws: "list_all (\<lambda>c. \<not> is_ws c) s" and ctl: "list_all (\<lambda>c. \<not> is_control c) s"
    using assms(1) by (simp_all add: list_all_iff)
  have "is_ws nl" and "is_ws sp"
    by (simp_all add: is_ws_def nl_def sp_def)
  then have n: "nl \<notin> set s" and p: "sp \<notin> set s"
    using ws by (auto simp: list_all_iff)
  have f: "filter (\<lambda>c. \<not> is_control c) s = s"
    using ctl by (simp add: list_all_iff)
  have k: "keep_line s"
    using assms(2) ws by (simp add: keep_line_def trim_no_ws)
  show ?thesis
    by (simp add: cleanPageContent_def replace_runs_absent n p f split_nl_absent k)
qed

text \<open>
  C5. Whenever the extracted, cleaned content of a page has more than 20,000
  characters, the context that \<open>captureDirectPageContent\<close> returns is the page header
  followed by exactly the first 20,000 characters of that content and then the literal
  marker \<open>"\n\n[Content truncated due to length]"\<close>; cleaned content of at most 20,000
  characters follows the header as it is.
\<close>

theorem captureDirectPageContent_truncation:
  assumes "extractPageContent structured visible = Some pageContent"
  shows "(20000 < length (cleanPageContent pageContent) \<longrightarrow>
           captureDirectPageContent title href structured visible =
             page_header title href @ take 20000 (cleanPageContent pageContent) @
             [nl, nl] @ ''[Content truncated due to length]'' \<and>
           length (take 20000 (cleanPageContent pageContent)) = 20000) \<and>
         (length (cleanPageContent pageContent) \<le> 20000 \<longrightarrow>
           captureDirectPageContent title href structured visible =
             page_header title href @ cleanPageContent pageContent)"
  using assms
  by (simp add: captureDirectPageContent_def truncatePageContent_def
      maxPageContentLength_def truncation_marker_def)

theorem captureDirectPageContent_truncation_witness:
  "extractPageContent (replicate 20001 CHR ''a'') None = Some (replicate 20001 CHR ''a'') \<and>
   20000 < length (cleanPageContent (replicate 20001 CHR ''a'')) \<and>
   captureDirectPageContent ''T'' ''u'' (replicate 20001 CHR ''a'') None =
     page_header ''T'' ''u'' @ replicate 20000 CHR ''a'' @
     [nl, nl] @ ''[Content truncated due to length]''"
proof -
  have c: "cleanPageContent (replicate 20001 CHR ''a'') = replicate 20001 CHR ''a''"
    by (rule cleanPageContent_plain) (simp_all add: list_all_iff is_ws_def is_control_def)
  have e: "extractPageContent (replicate 20001 CHR ''a'') None = Some (replicate 20001 CHR ''a'')"
    by (simp add: extractPageContent_def)
  show ?thesis
    using captureDirectPageContent_truncation [OF e, of "''T''" "''u''"] e
    by (simp add: c)
qed

section \<open>Properties of the readability fallback\<close>

lemma captureWithJina_thin:
  "jina_thin_or_failed jina \<Longrightarrow>
     (case captureWithJina jina of Inl e \<Rightarrow> True | Inr c \<Rightarrow> length c < 100)"
  by (auto simp: jina_thin_or_failed_def captureWithJina_def maxPageContentLength_def
      split: fetched.splits option.splits if_splits)

text \<open>
  C6. \<open>capturePageContext\<close> sends a request to the readability service only for a
  page it judges public, that is one whose URL contains none of the private
  indicators; whenever that request fails or gives fewer than 100 characters, the
  context is what the direct scrape returns; and when the capture as a whole fails
  (the direct scrape raises), the context is the empty string and nothing is raised.
\<close>

theorem capturePageContext_readability:
  "(jina_request api url \<in> set (fst (capturePageContext api url jina direct)) \<longrightarrow>
      isPublicWebpage url \<and> list_all (\<lambda>indicator. \<not> str_includes url indicator) privateIndicators) \<and>
   (jina_thin_or_failed jina \<longrightarrow>
      snd (capturePageContext api url jina (Inr pageContent)) = pageContent) \<and>
   (jina_thin_or_failed jina \<longrightarrow> snd (capturePageContext api url jina (Inl e)) = []) \<and>
   (\<not> isPublicWebpage url \<longrightarrow> snd (capturePageContext api url jina (Inl e)) = [])"
proof -
  have a: "isPublicWebpage url = list_all (\<lambda>indicator. \<not> str_includes url indicator) privateIndicators"
    by (simp add: isPublicWebpage_def list_all_iff list_ex_iff)
  have b: "jina_request api url \<in> set (fst (capturePageContext api url jina direct)) \<longrightarrow>
      isPublicWebpage url"
    by (auto simp: capturePageContext_def Let_def split: sum.splits if_splits)
  have c: "jina_thin_or_failed jina \<longrightarrow> snd (capturePageContext api url jina d) =
      (case d of Inl e \<Rightarrow> [] | Inr pageContent \<Rightarrow> pageContent)" for d
    using captureWithJina_thin [of jina]
    by (auto simp: capturePageContext_def Let_def split: sum.splits)
  have d: "\<not> isPublicWebpage url \<longrightarrow> snd (capturePageContext api url jina (Inl e)) = []"
    by (simp add: capturePageContext_def)
  show ?thesis
    using a b c [of "Inr pageContent"] c [of "Inl e"] d by simp
qed

lemma isPublicWebpage_example: "isPublicWebpage ''https://example.com/form''"
  by (simp add: isPublicWebpage_def privateIndicators_def)

lemma isPublicWebpage_login: "\<not> isPublicWebpage ''https://example.com/login''"
  by (simp add: isPublicWebpage_def privateIndicators_def)

theorem capturePageContext_readability_witness:
  "jina_request ''api'' ''https://example.com/form'' \<in>
     set (fst (capturePageContext ''api'' ''https://example.com/form'' (Responded 500 None) (Inr ''page''))) \<and>
   isPublicWebpage ''https://example.com/form'' \<and>
   jina_thin_or_failed (Responded 500 None) \<and>
   snd (capturePageContext ''api'' ''https://example.com/form'' (Responded 500 None) (Inr ''page'')) = ''page'' \<and>
   snd (capturePageContext ''api'' ''https://example.com/form'' (Responded 500 None) (Inl ''e'')) = [] \<and>
   \<not> isPublicWebpage ''https://example.com/login'' \<and>
   snd (capturePageContext ''api'' ''https://example.com/login'' (Responded 500 None) (Inl ''e'')) = []"
proof -
  have j: "jina_thin_or_failed (Responded 500 None)"
    by (simp add: jina_thin_or_failed_def ok_def)
  have r: "jina_request ''api'' ''https://example.com/form'' \<in>
     set (fst (capturePageContext ''api'' ''https://example.com/form'' (Responded 500 None) (Inr ''page'')))"
    by (simp add: capturePageContext_def isPublicWebpage_example captureWithJina_def ok_def)
  show ?thesis
    using capturePageContext_readability [of "''api''" "''https://example.com/form''" "Responded 500 None" "Inr ''page''" "''page''" "''e''"]
      capturePageContext_readability [of "''api''" "''https://example.com/login''" "Responded 500 None" "Inr ''page''" "''page''" "''e''"]
      j r isPublicWebpage_login
    by simp
qed

section \<open>Properties of the inserter\<close>

lemma type_property_search:
  "getAttribute e ''type'' = Some ''search'' \<Longrightarrow> type_property e = ''search''"
  by (simp add: type_property_def ascii_lower_def input_types_def)

lemma search_is_form_element:
  "tagName e = ''INPUT'' \<Longrightarrow> getAttribute e ''type'' = Some ''search'' \<Longrightarrow> is_form_element e"
  by (simp add: is_form_element_def FORM_ELEMENTS_def attribute_is_def)

lemma resume_elements: "elements (fst (resume p i st)) = elements st"
  by (cases p; cases i)
     (auto simp: finish_def showNotification_def caught_def cancelled_def store_url_def
        split: option.splits sum.splits)

lemma resume2_frame:
  assumes "\<not> receives_text (elements st a)"
  shows "elem_value (elements (fst (resume2 p i st)) a) = elem_value (elements st a) \<and>
     innerHTML (elements (fst (resume2 p i st)) a) = innerHTML (elements st a)"
  using assms
  by (cases p; cases i)
     (auto simp: finish_def showNotification_def caught_def cancelled_def store_url_def ask2_def
        receives_text_def insertTextIntoElement2_def split: option.splits sum.splits)

lemma fire_frame:
  assumes "\<not> receives_text (elements st a)"
  shows "elem_value (elements (fire tm st) a) = elem_value (elements st a) \<and>
     innerHTML (elements (fire tm st) a) = innerHTML (elements st a)"
  using assms
  by (cases tm) (auto simp: receives_text_def insertTextIntoElement_def Let_def)

lemma hidden_input_rejected: "\<not> is_form_element hidden_input"
  by (simp add: is_form_element_def FORM_ELEMENTS_def attribute_is_def hidden_input_def
      getAttribute_def ascii_lower_def)

text \<open>
  C10, as the code has it. \<open>insertTextIntoElement\<close> (in both scripts) writes only
  to textareas, to inputs whose type is \<open>text\<close> and to elements with
  \<open>contenteditable="true"\<close>: there the value, respectively the \<open>innerHTML\<close>, becomes
  the text. For every other element \<open>value\<close> and \<open>innerHTML\<close> stay as they were;
  among these are the \<open>input[type="search"]\<close> elements and the elements of class
  \<open>form-control\<close> that are neither inputs nor textareas, which the selector list
  \<open>FORM_ELEMENTS\<close> accepts. The click handler writes to a field only through
  \<open>insertTextIntoElement\<close>, so such a field keeps its value and \<open>innerHTML\<close>
  through every step of the handler of either script and through every timer of the
  page. The answer reaches such a field on the other path: for the event
  \<open>claude-response-ready\<close> the listener of \<open>airtable-handler.js\<close> sets the value
  of every input and textarea, and the \<open>innerHTML\<close> of every other element with a
  \<open>contenteditable\<close> attribute, to a non-empty answer.
\<close>

theorem insertTextIntoElement_frame:
  "(\<not> receives_text e \<longrightarrow>
      elem_value (insertTextIntoElement e t) = elem_value e \<and>
      innerHTML (insertTextIntoElement e t) = innerHTML e \<and>
      elem_value (insertTextIntoElement2 e t) = elem_value e \<and>
      innerHTML (insertTextIntoElement2 e t) = innerHTML e) \<and>
   (receives_text e \<longrightarrow>
      (elem_value (insertTextIntoElement e t) = t \<or> innerHTML (insertTextIntoElement e t) = t) \<and>
      (elem_value (insertTextIntoElement2 e t) = t \<or> innerHTML (insertTextIntoElement2 e t) = t)) \<and>
   (tagName e = ''INPUT'' \<and> getAttribute e ''type'' = Some ''search'' \<and>
    getAttribute e ''contenteditable'' \<noteq> Some ''true'' \<longrightarrow>
      is_form_element e \<and> \<not> receives_text e) \<and>
   (''form-control'' \<in> set (classList e) \<and> tagName e \<noteq> ''TEXTAREA'' \<and> tagName e \<noteq> ''INPUT'' \<and>
    getAttribute e ''contenteditable'' \<noteq> Some ''true'' \<longrightarrow>
      is_form_element e \<and> \<not> receives_text e) \<and>
   elements (fst (resume p i st)) = elements st \<and>
   (\<not> receives_text (elements st a) \<longrightarrow>
      elem_value (elements (fire tm st) a) = elem_value (elements st a) \<and>
      innerHTML (elements (fire tm st) a) = innerHTML (elements st a) \<and>
      elem_value (elements (fst (resume2 p i st)) a) = elem_value (elements st a) \<and>
      innerHTML (elements (fst (resume2 p i st)) a) = innerHTML (elements st a)) \<and>
   (t \<noteq> [] \<and> (tagName e = ''INPUT'' \<or> tagName e = ''TEXTAREA'') \<longrightarrow>
      elem_value (claude_response_ready e t) = t \<and>
      elem_value (insertTextIntoElement (claude_response_ready e t) t) = t \<and>
      elem_value (insertTextIntoElement2 (claude_response_ready e t) t) = t) \<and>
   (t \<noteq> [] \<and> tagName e \<noteq> ''INPUT'' \<and> tagName e \<noteq> ''TEXTAREA'' \<and>
    hasAttribute e ''contenteditable'' \<longrightarrow>
      innerHTML (claude_response_ready e t) = t \<and>
      elem_value (claude_response_ready e t) = elem_value e)"
proof -
  have a: "\<not> receives_text e \<longrightarrow>
      elem_value (insertTextIntoElement e t) = elem_value e \<and>
      innerHTML (insertTextIntoElement e t) = innerHTML e"
    by (simp add: receives_text_def insertTextIntoElement_def Let_def)
  have b: "\<not> receives_text e \<longrightarrow>
      elem_value (insertTextIntoElement2 e t) = elem_value e \<and>
      innerHTML (insertTextIntoElement2 e t) = innerHTML e"
    by (simp add: receives_text_def insertTextIntoElement2_def)
  have c: "receives_text e \<longrightarrow>
      elem_value (insertTextIntoElement e t) = t \<or> innerHTML (insertTextIntoElement e t) = t"
    by (simp add: receives_text_def insertTextIntoElement_def Let_def)
  have d: "receives_text e \<longrightarrow>
      elem_value (insertTextIntoElement2 e t) = t \<or> innerHTML (insertTextIntoElement2 e t) = t"
    by (simp add: receives_text_def insertTextIntoElement2_def)
  have f: "tagName e = ''INPUT'' \<and> getAttribute e ''type'' = Some ''search'' \<and>
    getAttribute e ''contenteditable'' \<noteq> Some ''true'' \<longrightarrow>
      is_form_element e \<and> \<not> receives_text e"
    by (simp add: search_is_form_element receives_text_def type_property_search)
  have g: "''form-control'' \<in> set (classList e) \<and> tagName e \<noteq> ''TEXTAREA'' \<and> tagName e \<noteq> ''INPUT'' \<and>
    getAttribute e ''contenteditable'' \<noteq> Some ''true'' \<longrightarrow>
      is_form_element e \<and> \<not> receives_text e"
    by (simp add: is_form_element_def FORM_ELEMENTS_def receives_text_def)
  have h: "t \<noteq> [] \<and> (tagName e = ''INPUT'' \<or> tagName e = ''TEXTAREA'') \<longrightarrow>
      elem_value (claude_response_ready e t) = t \<and>
      elem_value (insertTextIntoElement (claude_response_ready e t) t) = t \<and>
      elem_value (insertTextIntoElement2 (claude_response_ready e t) t) = t"
    by (auto simp: claude_response_ready_def insertTextIntoElement_def insertTextIntoElement2_def
        Let_def)
  have k: "t \<noteq> [] \<and> tagName e \<noteq> ''INPUT'' \<and> tagName e \<noteq> ''TEXTAREA'' \<and>
    hasAttribute e ''contenteditable'' \<longrightarrow>
      innerHTML (claude_response_ready e t) = t \<and>
      elem_value (claude_response_ready e t) = elem_value e"
    by (simp add: claude_response_ready_def)
  show ?thesis
    using a b c d f g h k resume_elements [of p i st] resume2_frame [of st a p i]
      fire_frame [of st a tm]
    by blast
qed

theorem insertTextIntoElement_frame_witness:
  "is_form_element search_input \<and> \<not> receives_text search_input \<and>
   elem_value (insertTextIntoElement search_input ''answer'') = ''old'' \<and>
   innerHTML (insertTextIntoElement search_input ''answer'') = [] \<and>
   elem_value (insertTextIntoElement2 search_input ''answer'') = ''old'' \<and>
   innerHTML (insertTextIntoElement2 search_input ''answer'') = [] \<and>
   receives_text a_textarea \<and>
   elem_value (insertTextIntoElement a_textarea ''answer'') = ''answer'' \<and>
   elem_value (insertTextIntoElement2 a_textarea ''answer'') = ''answer'' \<and>
   elem_value (elements (fire (InsertText 0 ''answer'') airtable_page) 0) = ''old'' \<and>
   elem_value (elements (fst (resume2 AwaitResponse (Response (Some an_answer)) airtable_page)) 0) =
     ''old'' \<and>
   elem_value (claude_response_ready search_input ''answer'') = ''answer''"
proof -
  have s: "tagName search_input = ''INPUT'' \<and> getAttribute search_input ''type'' = Some ''search'' \<and>
      getAttribute search_input ''contenteditable'' \<noteq> Some ''true'' \<and>
      elem_value search_input = ''old'' \<and> innerHTML search_input = []"
    by (simp add: search_input_def getAttribute_def)
  have p: "elements airtable_page 0 = cell_search_input \<and> \<not> receives_text cell_search_input \<and>
      elem_value cell_search_input = ''old''"
    by (simp add: airtable_page_def a_page_def cell_search_input_def search_input_def
        receives_text_def getAttribute_def type_property_def ascii_lower_def input_types_def)
  have r: "receives_text a_textarea"
    by (simp add: receives_text_def a_textarea_def)
  have v: "elem_value (insertTextIntoElement a_textarea ''answer'') = ''answer'' \<and>
      elem_value (insertTextIntoElement2 a_textarea ''answer'') = ''answer''"
    using insertTextIntoElement_frame [where e = a_textarea and t = "''answer''"] r
    by (simp add: a_textarea_def insertTextIntoElement_def insertTextIntoElement2_def Let_def)
  show ?thesis
    using insertTextIntoElement_frame [where e = search_input and t = "''answer''"
        and st = airtable_page and a = 0 and tm = "InsertText 0 ''answer''"
        and p = AwaitResponse and i = "Response (Some an_answer)"]
      s p r v
    by simp
qed

text \<open>
  C10 as it is stated fails in its conclusion. The search input of a cell is accepted
  by \<open>FORM_ELEMENTS\<close> and is none of the elements that \<open>insertTextIntoElement\<close>
  writes to, and it does receive the answer: when the response to a
  \<open>claude-airtable-request\<close> arrives, the listener of \<open>airtable-handler.js\<close> sets
  its value to \<open>Ada\<close>, in either script, and the value is still \<open>Ada\<close> when the
  timer of \<open>insertTextIntoElement\<close> has run.
\<close>

theorem airtable_search_counterexample:
  "is_form_element cell_search_input \<and> \<not> receives_text cell_search_input \<and>
   elem_value (elements airtable_page 0) = ''old'' \<and>
   elem_value (elements (airtable_answered (Some 0) (Some an_answer) airtable_page) 0) = ''Ada'' \<and>
   elem_value (elements (run_timers 50
     (airtable_answered (Some 0) (Some an_answer) airtable_page)) 0) = ''Ada'' \<and>
   elem_value (elements (airtable_answered2 (Some 0) (Some an_answer) airtable_page) 0) = ''Ada''"
proof -
  have f: "is_form_element cell_search_input"
    by (rule search_is_form_element)
       (simp_all add: cell_search_input_def search_input_def getAttribute_def)
  have r: "\<not> receives_text cell_search_input"
    by (simp add: cell_search_input_def search_input_def receives_text_def getAttribute_def
        type_property_def ascii_lower_def input_types_def)
  have t: "type_property cell_search_input = ''search''"
    by (rule type_property_search) (simp add: cell_search_input_def search_input_def getAttribute_def)
  have one: "airtable_answered (Some 0) (Some an_answer) airtable_page =
     airtable_page\<lparr>elements := (elements airtable_page)
         (0 := claude_response_ready cell_search_input ''Ada''),
       timers := [(50, InsertText 0 ''Ada'')]\<rparr>"
    by (simp add: airtable_answered_def an_answer_def airtable_page_def a_page_def)
  have w: "claude_response_ready cell_search_input ''Ada'' =
     cell_search_input\<lparr>elem_value := ''Ada'', dispatched := [''input'', ''change'']\<rparr>"
    by (simp add: claude_response_ready_def cell_search_input_def search_input_def)
  have i: "elem_value (insertTextIntoElement
      (cell_search_input\<lparr>elem_value := ''Ada'', dispatched := [''input'', ''change'']\<rparr>) ''Ada'') = ''Ada''"
    by (simp add: insertTextIntoElement_def Let_def)
  have i2: "elem_value (insertTextIntoElement2
      (cell_search_input\<lparr>elem_value := ''Ada'', dispatched := [''input'', ''change'']\<rparr>) ''Ada'') = ''Ada''"
    by (simp add: insertTextIntoElement2_def)
  have two: "elem_value (elements (airtable_answered2 (Some 0) (Some an_answer) airtable_page) 0) =
     ''Ada''"
    using i2 by (simp add: airtable_answered2_def an_answer_def airtable_page_def a_page_def w)
  have timed: "elem_value (elements (run_timers 50
     (airtable_answered (Some 0) (Some an_answer) airtable_page)) 0) = ''Ada''"
    unfolding one w using i by (simp add: run_timers_def airtable_page_def a_page_def)
  show ?thesis
    using f r two timed unfolding one w
    by (simp add: airtable_page_def a_page_def cell_search_input_def search_input_def)
qed

section \<open>Properties of the question inferrer\<close>

lemma first_nonempty_Cons:
  "first_nonempty (c # cs) = (if c \<noteq> [] then c else first_nonempty cs)"
  by (simp add: first_nonempty_def)

lemma first_nonempty_Nil: "first_nonempty [] = []"
  by (simp add: first_nonempty_def)

lemma parent_walk_first:
  "parent_walk (parent # rest) =
     first_nonempty (map label_text (parent # takeWhile (\<lambda>a. \<not> is_body a) rest))"
proof (induction rest arbitrary: parent)
  case Nil
  then show ?case by (simp add: first_nonempty_Cons first_nonempty_Nil)
next
  case (Cons up others)
  show ?case
    using Cons [of up] by (simp add: first_nonempty_Cons first_nonempty_Nil)
qed

lemma label_text_read:
  "label_text = (\<lambda>a. case first_label a of None \<Rightarrow> [] | Some textContent \<Rightarrow> trim textContent)"
  by (rule ext) (simp add: label_text_def)

lemma parent_walk_candidate: "parent_walk (parents e) = ancestor_candidate e"
proof (cases "parents e")
  case Nil
  then show ?thesis by (simp add: ancestor_candidate_def)
next
  case (Cons parent rest)
  then show ?thesis
    by (simp only: ancestor_candidate_def parent_walk_first list.case label_text_read)
qed

lemma sibling_walk_first: "sibling_walk siblings = first_nonempty (map trim siblings)"
  by (induction siblings) (simp_all add: first_nonempty_Cons first_nonempty_Nil)

lemma sibling_walk_candidate: "sibling_walk (previous_siblings e) = sibling_candidate e"
  by (simp add: sibling_candidate_def sibling_walk_first)

lemma step_label:
  assumes "(if elem_id e \<noteq> [] then label_for e else Inr None) = Inr label"
  shows "(if elem_id e \<noteq> []
    then (case label of
            None \<Rightarrow> q
          | Some textContent \<Rightarrow> if trim textContent \<noteq> [] then trim textContent else q)
    else q) =
   (if label_candidate e \<noteq> [] then label_candidate e else q)"
  using assms by (auto simp: label_candidate_def split: option.splits if_splits)

lemma step_placeholder:
  "(case placeholder e of None \<Rightarrow> q | Some p \<Rightarrow> if p \<noteq> [] then p else q) =
   (if placeholder_candidate e \<noteq> [] then placeholder_candidate e else q)"
  by (simp add: placeholder_candidate_def placeholder_def split: option.splits)

lemma step_aria:
  "(case aria_label e of None \<Rightarrow> q | Some a \<Rightarrow> if a \<noteq> [] then a else q) =
   (if aria_candidate e \<noteq> [] then aria_candidate e else q)"
  by (simp add: aria_candidate_def split: option.splits)

lemma step_heading:
  "(if q = [] \<and> contenteditable e = Some ''true''
    then (case container_headings e of
            None \<Rightarrow> q
          | Some headings \<Rightarrow>
              (case headings of [] \<Rightarrow> q | heading # others \<Rightarrow> trim heading))
    else q) =
   (if q = [] then heading_candidate e else q)"
  by (simp add: heading_candidate_def split: option.splits list.splits)

lemma question_chain:
  "(let question = [];
        question = (if a \<noteq> [] then a else question);
        question = (if question = [] then (if b \<noteq> [] then b else question) else question);
        question = (if question = [] then (if c \<noteq> [] then c else question) else question);
        question = (if question = [] then d else question);
        question = (if question = [] then f else question);
        question = (if question = [] then g else question)
    in question) = first_nonempty [a, b, c, d, f, g]"
  by (simp add: first_nonempty_Cons first_nonempty_Nil Let_def)

lemma detectFormQuestion_refines:
  assumes "elem_id e = [] \<or> label_for e = Inr l"
  shows "detectFormQuestion e = Inr (detectFormQuestion_spec e)"
proof -
  obtain label where q: "(if elem_id e \<noteq> [] then label_for e else Inr None) = Inr label"
    using assms by (cases "elem_id e = []") auto
  show ?thesis
    unfolding detectFormQuestion_def q sum.case step_label [OF q] step_placeholder
      step_aria step_heading parent_walk_candidate sibling_walk_candidate
      detectFormQuestion_spec_def
    by (simp only: question_chain)
qed

lemma detectFormQuestion_raises:
  "elem_id e \<noteq> [] \<Longrightarrow> label_for e = Inl err \<Longrightarrow> detectFormQuestion e = Inl err"
  by (simp add: detectFormQuestion_def)

text \<open>
  C4, as the code has it. For every field whose label query does not raise,
  \<open>detectFormQuestion\<close> returns the first non-empty candidate in the order: the
  trimmed text of the label whose \<open>for\<close> is the field's id; the placeholder of an
  input or a textarea as it is; the field's aria-label; the text of the first label or
  heading found in the parent and then in the further ancestors below the document
  body; the text of the nearest preceding sibling that has text; for a field with
  \<open>contenteditable="true"\<close>, the text of the first heading or prompt in the
  enclosing block container. It returns the empty string when no candidate is
  non-empty. An input with the placeholder \<open>Enter your name\<close> and no label for it
  gets exactly \<open>Enter your name\<close>. When the label query raises, the function is
  rejected with that error.
\<close>

theorem detectFormQuestion_priority:
  "(elem_id e = [] \<or> label_for e = Inr l \<longrightarrow>
      detectFormQuestion e =
        Inr (first_nonempty
          [label_candidate e, placeholder_candidate e, aria_candidate e, ancestor_candidate e,
           sibling_candidate e, heading_candidate e])) \<and>
   ((elem_id e = [] \<or> label_for e = Inr None) \<and>
    (field_tag e = ''INPUT'' \<or> field_tag e = ''TEXTAREA'') \<and>
    placeholder_attribute e = Some ''Enter your name'' \<longrightarrow>
      detectFormQuestion e = Inr ''Enter your name'') \<and>
   (elem_id e \<noteq> [] \<and> label_for e = Inl err \<longrightarrow> detectFormQuestion e = Inl err)"
proof -
  have a: "elem_id e = [] \<or> label_for e = Inr l \<longrightarrow>
      detectFormQuestion e =
        Inr (first_nonempty
          [label_candidate e, placeholder_candidate e, aria_candidate e, ancestor_candidate e,
           sibling_candidate e, heading_candidate e])"
    using detectFormQuestion_refines [of e l] by (simp add: detectFormQuestion_spec_def)
  have "label_candidate e = []" if "elem_id e = [] \<or> label_for e = Inr None"
    using that by (auto simp: label_candidate_def)
  moreover have "placeholder_candidate e = ''Enter your name''"
    if "field_tag e = ''INPUT'' \<or> field_tag e = ''TEXTAREA''"
      and "placeholder_attribute e = Some ''Enter your name''"
    using that by (auto simp: placeholder_candidate_def)
  ultimately have b: "(elem_id e = [] \<or> label_for e = Inr None) \<and>
    (field_tag e = ''INPUT'' \<or> field_tag e = ''TEXTAREA'') \<and>
    placeholder_attribute e = Some ''Enter your name'' \<longrightarrow>
      detectFormQuestion e = Inr ''Enter your name''"
    using detectFormQuestion_refines [of e None]
    by (auto simp: detectFormQuestion_spec_def first_nonempty_Cons)
  show ?thesis
    using a b detectFormQuestion_raises [of e err] by blast
qed

theorem detectFormQuestion_priority_witness:
  "elem_id name_input = [] \<and> field_tag name_input = ''INPUT'' \<and>
   placeholder_attribute name_input = Some ''Enter your name'' \<and>
   detectFormQuestion name_input = Inr ''Enter your name'' \<and>
   label_for email_input = Inr (Some '' Email address '') \<and>
   detectFormQuestion email_input = Inr ''Email address'' \<and>
   elem_id story_box = [] \<and>
   detectFormQuestion story_box = Inr ''Tell us more'' \<and>
   elem_id quoted_id_input \<noteq> [] \<and> label_for quoted_id_input = Inl invalid_selector \<and>
   detectFormQuestion quoted_id_input = Inl invalid_selector"
proof -
  have n: "elem_id name_input = [] \<and> field_tag name_input = ''INPUT'' \<and>
      placeholder_attribute name_input = Some ''Enter your name''"
    by (simp add: name_input_def)
  have f: "first_nonempty
        [label_candidate name_input, placeholder_candidate name_input,
         aria_candidate name_input, ancestor_candidate name_input,
         sibling_candidate name_input, heading_candidate name_input] = ''Enter your name''"
    by (simp add: name_input_def label_candidate_def placeholder_candidate_def
        first_nonempty_Cons)
  have m: "label_for email_input = Inr (Some '' Email address '') \<and>
      first_nonempty
        [label_candidate email_input, placeholder_candidate email_input,
         aria_candidate email_input, ancestor_candidate email_input,
         sibling_candidate email_input, heading_candidate email_input] = ''Email address''"
    by (simp add: email_input_def label_candidate_def first_nonempty_Cons trim_def is_ws_def)
  have s: "elem_id story_box = [] \<and>
      first_nonempty
        [label_candidate story_box, placeholder_candidate story_box,
         aria_candidate story_box, ancestor_candidate story_box,
         sibling_candidate story_box, heading_candidate story_box] = ''Tell us more''"
    by (simp add: story_box_def label_candidate_def placeholder_candidate_def aria_candidate_def
        ancestor_candidate_def sibling_candidate_def heading_candidate_def first_nonempty_Cons
        first_nonempty_Nil trim_def is_ws_def)
  have q: "elem_id quoted_id_input \<noteq> [] \<and> label_for quoted_id_input = Inl invalid_selector"
    by (simp add: quoted_id_input_def)
  show ?thesis
    using detectFormQuestion_priority [of name_input None]
      detectFormQuestion_priority [of email_input "Some '' Email address ''"]
      detectFormQuestion_priority [of story_box None]
      detectFormQuestion_priority [of quoted_id_input None invalid_selector]
      n f m s q
    by simp
qed

text \<open>
  C4 as it is stated fails for the second candidate, and not every field gets a
  question. A
  \<open>div contenteditable="true"\<close> with the attribute \<open>placeholder="Write a
  comment"\<close> and no other candidate has no \<open>placeholder\<close> property: the function
  reads \<open>undefined\<close> and returns the empty string, where the priority order with the
  placeholder attribute gives \<open>Write a comment\<close>. And for an input with the id
  \<open>a"b\<close> the label query raises, so the function returns nothing and is rejected,
  although the input has a placeholder.
\<close>

theorem detectFormQuestion_attribute_counterexample:
  "placeholder_attribute comment_box = Some ''Write a comment'' \<and>
   detectFormQuestion_claimed comment_box = ''Write a comment'' \<and>
   detectFormQuestion comment_box = Inr [] \<and>
   placeholder_attribute quoted_id_input = Some ''Enter your name'' \<and>
   detectFormQuestion quoted_id_input = Inl invalid_selector"
  by (simp add: comment_box_def quoted_id_input_def detectFormQuestion_claimed_def
      label_candidate_def attribute_candidate_def first_nonempty_Cons detectFormQuestion_def
      placeholder_def label_text_def)

section \<open>Properties of the chat service client\<close>








lemma sendMessage_shape:
  "\<exists>prompt attachments. sendMessage rt b orgId chatId msg =
     ([Fetch \<lparr>req_method = ''POST'', req_url = send_message_url orgId chatId,
              req_body = CompletionBody prompt attachments\<rparr>],
      raised (completion b) ''Failed to send message: '')"
  by (simp add: sendMessage_def Let_def split: option.splits prod.splits)


lemma raised_status:
  "\<not> ok status \<Longrightarrow> raised (Responded status body) failure = Inl (Error (failure @ decimal status))"
  by (simp add: raised_def)


lemma organization_id_fetched:
  assumes "currentOrgId = None \<or> currentOrgId = Some []"
    and "organizations b = Responded s0 (org # orgs)" and "ok s0"
  shows "organization_id b currentOrgId = ([organizations_request], Inr (org_uuid org))"
  using assms
  by (auto simp: organization_id_def fetchOrganizations_def raised_def organizations_request_def)

lemma createConversation_ok:
  assumes "created b = Responded s1 json" and "ok s1"
  shows "createConversation rt b orgId projId (Some name) =
     ([conversation_request orgId (conversation_name rt (Some name)) projId (conversation_uuid rt)],
      Inr (conversation_uuid rt))"
  using assms
  by (simp add: createConversation_def conversation_request_def conversation_name_def raised_def
      Let_def)

lemma conversation_name_idem:
  "conversation_name rt (Some (conversation_name rt title)) = conversation_name rt title"
  by (simp add: conversation_name_def default_name_def split: option.splits)


lemma askClaude_ok:
  assumes org: "organization_id b currentOrgId = (fx0, Inr orgId)"
    and cr: "created b = Responded s1 json" "ok s1"
    and co: "completion b = Responded s2 txt" "ok s2"
    and tr: "conversation b = Responded s3 chatResponse" "ok s3"
    and ex: "extractAnswer chatResponse = Inr a"
    and sm: "sendMessage rt b orgId (conversation_uuid rt) question =
      ([completion_request orgId (conversation_uuid rt) prompt attachments],
       raised (completion b) ''Failed to send message: '')"
  shows "askClaude rt b currentOrgId question projectId title =
     (fx0 @
      [conversation_request orgId (conversation_name rt title) projectId (conversation_uuid rt),
       completion_request orgId (conversation_uuid rt) prompt attachments,
       Sleep 5000,
       transcript_request orgId (conversation_uuid rt)],
      Some orgId,
      Inr \<lparr>answer = a, conversationId = conversation_uuid rt,
           chatUrl = BASE_URL @ ''/chat/'' @ conversation_uuid rt,
           newConversationCreated = True\<rparr>)"
proof -
  have c: "createConversation rt b orgId projectId (Some (conversation_name rt title)) =
     ([conversation_request orgId (conversation_name rt title) projectId (conversation_uuid rt)],
      Inr (conversation_uuid rt))"
    using createConversation_ok [OF cr] by (simp add: conversation_name_idem)
  have r2: "raised (completion b) ''Failed to send message: '' = Inr txt"
    using co by (simp add: raised_def)
  have r3: "raised (conversation b) ''Failed to retrieve messages: '' = Inr chatResponse"
    using tr by (simp add: raised_def)
  show ?thesis
    unfolding askClaude_def conversation_name_def [symmetric]
    by (simp add: org c sm r2 r3 ex transcript_request_def)
qed







section \<open>Properties of the trigger button\<close>

lemma fire_url:
  "currentConversationUrl (fire tm s) =
     (if tm = ClearConversationUrl then None else currentConversationUrl s)"
  by (cases tm) simp_all

lemma foldl_fire_url:
  "currentConversationUrl (foldl (\<lambda>s (due, tm). fire tm s) s xs) =
     (if ClearConversationUrl \<in> snd ` set xs then None else currentConversationUrl s)"
  by (induction xs arbitrary: s) (auto simp: fire_url split: prod.splits)

lemma run_timers_clears:
  assumes "(due, ClearConversationUrl) \<in> set (timers st)" and "due \<le> t"
  shows "currentConversationUrl (run_timers t st) = None"
proof -
  have "(due, ClearConversationUrl) \<in> set (sort_key fst (filter (\<lambda>(due, tm). due \<le> t) (timers st)))"
    using assms by simp
  then have "ClearConversationUrl \<in> snd ` set (sort_key fst (filter (\<lambda>(due, tm). due \<le> t) (timers st)))"
    by force
  then show ?thesis
    unfolding run_timers_def foldl_fire_url by simp
qed

lemma finish_resets:
  "\<not> isProcessing (finish s) \<and> (clock s + 10000, ClearConversationUrl) \<in> set (timers (finish s))"
  by (simp add: finish_def)

lemma clock_kept [simp]:
  "clock (caught m st) = clock st" "clock (cancelled st) = clock st"
  "clock (showNotification n st) = clock st" "clock (store_url res st) = clock st"
  by (simp_all add: caught_def cancelled_def showNotification_def store_url_def)

lemma resume_exit:
  "resume p i st = (returned, None) \<Longrightarrow> \<exists>s. returned = finish s \<and> clock s = clock st"
  by (cases p; cases i) (auto split: option.splits sum.splits if_splits)

lemma resume2_exit:
  "resume2 p i st = (returned, None) \<Longrightarrow> \<exists>s. returned = finish s \<and> clock s = clock st"
  by (cases p; cases i) (auto simp: ask2_def split: option.splits sum.splits if_splits)

lemma exit_resets:
  assumes "\<exists>s. returned = finish s \<and> clock s = clock st"
  shows "\<not> isProcessing returned \<and>
     (clock st + 10000, ClearConversationUrl) \<in> set (timers returned) \<and>
     currentConversationUrl (run_timers (clock st + 10000) returned) = None"
proof -
  obtain s where s: "returned = finish s" "clock s = clock st"
    using assms by blast
  have t: "(clock st + 10000, ClearConversationUrl) \<in> set (timers returned)"
    using finish_resets [of s] s by simp
  show ?thesis
    using finish_resets [of s] s t run_timers_clears [OF t] by simp
qed

lemma resume_returns:
  "resume (AwaitPrompt s) (Prompt []) st = (finish (cancelled st), None)"
  "resume AwaitSettings (Rejection m) st = (finish (caught m st), None)"
  "resume (AwaitContext s asked) (Rejection m) st = (finish (caught m st), None)"
  "resume AwaitResponse (Rejection m) st = (finish (caught m st), None)"
  "snd (resume (AwaitFocus ans) Timeout st) = None"
  "\<not> isProcessing (fst (resume (AwaitFocus ans) Timeout st))"
  "last (notifications (fst (resume (AwaitFocus ans) Timeout st))) =
     ''Claude has filled the field successfully!''"
  by (simp_all add: finish_def showNotification_def)

lemma resume2_returns:
  "resume2 (AwaitPrompt s) (Prompt []) st = (finish (cancelled st), None)"
  "resume2 AwaitSettings (Rejection m) st = (finish (caught m st), None)"
  "resume2 AwaitResponse (Rejection m) st = (finish (caught m st), None)"
  "answer res \<noteq> [] \<Longrightarrow> snd (resume2 AwaitResponse (Response (Some res)) st) = None"
  "answer res \<noteq> [] \<Longrightarrow> \<not> isProcessing (fst (resume2 AwaitResponse (Response (Some res)) st))"
  "answer res \<noteq> [] \<Longrightarrow>
     last (notifications (fst (resume2 AwaitResponse (Response (Some res)) st))) =
       ''Claude has filled the field successfully!''"
  by (simp_all add: finish_def showNotification_def)

lemma resume_focus:
  assumes "answer res \<noteq> []" and "activeElement st = Some a" and "inDocument (elements st a)"
  shows "resume AwaitResponse (Response (Some res)) st =
     (store_url res st, Some (AwaitFocus (answer res)))"
  using assms by (simp add: store_url_def)

lemma await_order_returned: "6 \<le> await_order po \<Longrightarrow> po = None"
  by (cases po rule: await_order.cases) simp_all

lemma response_settles:
  assumes "env_lastError env = Some m" and "sent st \<noteq> []"
  shows "\<exists>i. input_for env st AwaitResponse = Some i \<and>
     ((\<exists>res. i = Response (Some res)) \<or> i = Rejection m)"
proof -
  obtain x xs where s: "sent st = x # xs"
    using assms(2) by (cases "sent st") auto
  show ?thesis
    by (cases "snd (snd (onMessage_askClaude (env_runtime env) (env_backend env) (env_orgId env)
          (last (sent st))))")
       (simp_all add: input_for_def s sendMessageToBackground_def assms(1))
qed

lemma proceed_resume_advances:
  assumes e: "env_lastError env = Some m"
    and w: "po = Some AwaitResponse \<longrightarrow> sent st \<noteq> []"
    and d: "po = None \<longrightarrow> \<not> isProcessing st"
    and r: "proceed resume env (st, po) = (st', po')"
  shows "(po' = Some AwaitResponse \<longrightarrow> sent st' \<noteq> []) \<and> (po' = None \<longrightarrow> \<not> isProcessing st') \<and>
     (po = None \<or> await_order po < await_order po')"
proof (cases po)
  case None
  then show ?thesis
    using d r by (auto simp: proceed_def)
next
  case (Some p)
  show ?thesis
  proof (cases p)
    case AfterClick
    then show ?thesis
      using r Some
      by (auto simp: proceed_def input_for_def finish_def split: option.splits)
  next
    case AwaitSettings
    then show ?thesis
      using r Some
      by (auto simp: proceed_def input_for_def delay_for_def elapse_def finish_def
          split: option.splits sum.splits if_splits)
  next
    case (AwaitPrompt s)
    then show ?thesis
      using r Some
      by (auto simp: proceed_def input_for_def delay_for_def elapse_def finish_def
          split: option.splits if_splits)
  next
    case (AwaitContext s asked)
    then show ?thesis
      using r Some
      by (auto simp: proceed_def input_for_def delay_for_def elapse_def)
  next
    case AwaitResponse
    obtain i where i: "input_for env st AwaitResponse = Some i"
      and k: "(\<exists>res. i = Response (Some res)) \<or> i = Rejection m"
      using response_settles [OF e] w Some AwaitResponse by blast
    have "resume AwaitResponse i st = (st', po')"
      using r Some AwaitResponse i by (simp add: proceed_def delay_for_def elapse_def)
    then show ?thesis
      using k Some AwaitResponse
      by (auto simp: finish_def split: option.splits if_splits)
  next
    case (AwaitFocus ans)
    then show ?thesis
      using r Some
      by (auto simp: proceed_def input_for_def finish_def)
  qed
qed

lemma click_request_returns:
  assumes e: "env_lastError env = Some m" and n: "\<not> isProcessing idle"
  shows "snd (click_request env idle) = None \<and> \<not> isProcessing (fst (click_request env idle))"
proof -
  have step: "(snd (proceed resume env x) = Some AwaitResponse \<longrightarrow>
        sent (fst (proceed resume env x)) \<noteq> []) \<and>
      (snd (proceed resume env x) = None \<longrightarrow> \<not> isProcessing (fst (proceed resume env x))) \<and>
      min (Suc k) 6 \<le> await_order (snd (proceed resume env x))"
    if "(snd x = Some AwaitResponse \<longrightarrow> sent (fst x) \<noteq> []) \<and>
      (snd x = None \<longrightarrow> \<not> isProcessing (fst x)) \<and> min k 6 \<le> await_order (snd x)" for x k
  proof -
    obtain st po where x: "x = (st, po)"
      by (cases x)
    obtain st' po' where y: "proceed resume env (st, po) = (st', po')"
      by (cases "proceed resume env (st, po)")
    have o: "po = None \<Longrightarrow> await_order po' = 6"
      using y by (simp add: proceed_def)
    show ?thesis
      using proceed_resume_advances [OF e _ _ y] that o unfolding x y
      by (cases "po = None") auto
  qed
  define x0 where "x0 = handleClaudeButtonClick idle"
  have s0: "(snd x0 = Some AwaitResponse \<longrightarrow> sent (fst x0) \<noteq> []) \<and>
      (snd x0 = None \<longrightarrow> \<not> isProcessing (fst x0)) \<and> min 0 6 \<le> await_order (snd x0)"
    using n by (auto simp: x0_def handleClaudeButtonClick_def split: option.splits if_splits)
  note s1 = step [OF s0]
  note s2 = step [OF s1]
  note s3 = step [OF s2]
  note s4 = step [OF s3]
  note s5 = step [OF s4]
  note s6 = step [OF s5]
  have "6 \<le> await_order (snd (click_request env idle)) \<and>
      (snd (click_request env idle) = None \<longrightarrow> \<not> isProcessing (fst (click_request env idle)))"
    unfolding click_request_def x0_def [symmetric]
    using s6 by simp
  then show ?thesis
    using await_order_returned [of "snd (click_request env idle)"] by simp
qed

lemma click_request2_returns:
  assumes e: "env_lastError env = Some m" and n: "\<not> isProcessing idle"
  shows "snd (click_request2 env idle) = None \<and> \<not> isProcessing (fst (click_request2 env idle))"
proof -
  have last_step: "snd (proceed resume2 env (st, po)) = None \<and>
      \<not> isProcessing (fst (proceed resume2 env (st, po)))"
    if "po = None \<and> \<not> isProcessing st \<or> po = Some AwaitResponse \<and> sent st \<noteq> []" for st po
  proof (cases po)
    case None
    then show ?thesis
      using that by (simp add: proceed_def)
  next
    case (Some p)
    then have p: "p = AwaitResponse" and w: "sent st \<noteq> []"
      using that by auto
    obtain i where i: "input_for env st AwaitResponse = Some i"
      and k: "(\<exists>res. i = Response (Some res)) \<or> i = Rejection m"
      using response_settles [OF e w] by blast
    show ?thesis
      using k unfolding Some p
      by (auto simp: proceed_def i delay_for_def elapse_def finish_def
          split: option.splits if_splits)
  qed
  have second_step: "(snd (proceed resume2 env (st, po)) = None \<and>
        \<not> isProcessing (fst (proceed resume2 env (st, po)))) \<or>
      (snd (proceed resume2 env (st, po)) = Some AwaitResponse \<and>
        sent (fst (proceed resume2 env (st, po))) \<noteq> [])"
    if h: "po = None \<and> \<not> isProcessing st \<or> po = Some AwaitResponse \<and> sent st \<noteq> [] \<or>
        (\<exists>s. po = Some (AwaitPrompt s))" for st po
  proof -
    consider "po = None \<and> \<not> isProcessing st \<or> po = Some AwaitResponse \<and> sent st \<noteq> []"
      | s where "po = Some (AwaitPrompt s)"
      using h by blast
    then show ?thesis
    proof cases
      case 1
      then show ?thesis
        using last_step [of po st] by simp
    next
      case 2
      then show ?thesis
        by (simp add: proceed_def input_for_def delay_for_def elapse_def ask2_def finish_def)
    qed
  qed
  have first_step: "(snd (proceed resume2 env (st, po)) = None \<and>
        \<not> isProcessing (fst (proceed resume2 env (st, po)))) \<or>
      (snd (proceed resume2 env (st, po)) = Some AwaitResponse \<and>
        sent (fst (proceed resume2 env (st, po))) \<noteq> []) \<or>
      (\<exists>s. snd (proceed resume2 env (st, po)) = Some (AwaitPrompt s))"
    if "po = None \<and> \<not> isProcessing st \<or> po = Some AwaitSettings" for st po
    using that
    by (auto simp: proceed_def input_for_def delay_for_def elapse_def ask2_def finish_def
        split: sum.splits if_splits)
  obtain st0 po0 where x0: "handleClaudeButtonClick2 idle = (st0, po0)"
    by (cases "handleClaudeButtonClick2 idle")
  have s0: "po0 = None \<and> \<not> isProcessing st0 \<or> po0 = Some AwaitSettings"
    using n x0 by (auto simp: handleClaudeButtonClick2_def split: option.splits if_splits)
  obtain st1 po1 where x1: "proceed resume2 env (st0, po0) = (st1, po1)"
    by (cases "proceed resume2 env (st0, po0)")
  have s1: "po1 = None \<and> \<not> isProcessing st1 \<or> po1 = Some AwaitResponse \<and> sent st1 \<noteq> [] \<or>
      (\<exists>s. po1 = Some (AwaitPrompt s))"
    using first_step [OF s0] unfolding x1 by simp
  obtain st2 po2 where x2: "proceed resume2 env (st1, po1) = (st2, po2)"
    by (cases "proceed resume2 env (st1, po1)")
  have s2: "po2 = None \<and> \<not> isProcessing st2 \<or> po2 = Some AwaitResponse \<and> sent st2 \<noteq> []"
    using second_step [OF s1] unfolding x2 by simp
  show ?thesis
    unfolding click_request2_def x0 x1 x2 by (rule last_step [OF s2])
qed

text \<open>
  C1. The trigger control goes from idle to processing and back. A click on the idle
  control, with an active field, starts a request. A call of
  \<open>handleClaudeButtonClick\<close> that starts a request sets \<open>isProcessing\<close> before its
  first await and sends nothing yet; every return of a started call leaves
  \<open>isProcessing\<close> false and has set a timer, due 10000 ms after the return, that
  clears the cached conversation URL, so that the URL is gone when the clock has moved
  on by 10000 ms. The call does return on each of the three ways out: when the user
  cancels the question dialog, when an await is rejected, and with an answer, after
  the success notification; and a whole request, from the click on the idle control
  on, returns with \<open>isProcessing\<close> false whenever the message to the background
  script is answered or reported as failed. While \<open>isProcessing\<close> is true and a
  conversation URL is cached, a click opens that URL and changes nothing else: no
  message goes to the background script and the flag stays. A click on the idle
  control with no active field returns at once and changes nothing. This holds for the
  handler of either script.
\<close>

theorem trigger_state_machine:
  "(activeElement idle = Some a \<and> \<not> isProcessing idle \<longrightarrow>
      (\<exists>p. handleClaudeButtonClick idle = (idle\<lparr>isProcessing := True\<rparr>, Some p)) \<and>
      handleClaudeButtonClick2 idle = (idle\<lparr>isProcessing := True\<rparr>, Some AwaitSettings)) \<and>
   (handleClaudeButtonClick st = (started, Some p) \<longrightarrow>
      isProcessing started \<and> sent started = sent st) \<and>
   (resume q i suspended = (returned, None) \<longrightarrow>
      \<not> isProcessing returned \<and>
      (clock suspended + 10000, ClearConversationUrl) \<in> set (timers returned) \<and>
      currentConversationUrl (run_timers (clock suspended + 10000) returned) = None) \<and>
   (isProcessing busy \<and> currentConversationUrl busy = Some url \<and> url \<noteq> [] \<longrightarrow>
      handleClaudeButtonClick busy = (busy\<lparr>opened := opened busy @ [url]\<rparr>, None) \<and>
      handleClaudeButtonClick2 busy = (busy\<lparr>opened := opened busy @ [url]\<rparr>, None)) \<and>
   (handleClaudeButtonClick2 st = (started2, Some p2) \<longrightarrow>
      isProcessing started2 \<and> sent started2 = sent st) \<and>
   (resume2 q i suspended = (returned2, None) \<longrightarrow>
      \<not> isProcessing returned2 \<and>
      (clock suspended + 10000, ClearConversationUrl) \<in> set (timers returned2) \<and>
      currentConversationUrl (run_timers (clock suspended + 10000) returned2) = None) \<and>
   resume (AwaitPrompt s) (Prompt []) st = (finish (cancelled st), None) \<and>
   resume2 (AwaitPrompt s) (Prompt []) st = (finish (cancelled st), None) \<and>
   resume AwaitSettings (Rejection m) st = (finish (caught m st), None) \<and>
   resume (AwaitContext s asked) (Rejection m) st = (finish (caught m st), None) \<and>
   resume AwaitResponse (Rejection m) st = (finish (caught m st), None) \<and>
   resume2 AwaitSettings (Rejection m) st = (finish (caught m st), None) \<and>
   resume2 AwaitResponse (Rejection m) st = (finish (caught m st), None) \<and>
   (answer res \<noteq> [] \<and> activeElement st = Some a \<and> inDocument (elements st a) \<longrightarrow>
      resume AwaitResponse (Response (Some res)) st =
        (store_url res st, Some (AwaitFocus (answer res)))) \<and>
   snd (resume (AwaitFocus ans) Timeout st) = None \<and>
   \<not> isProcessing (fst (resume (AwaitFocus ans) Timeout st)) \<and>
   last (notifications (fst (resume (AwaitFocus ans) Timeout st))) =
     ''Claude has filled the field successfully!'' \<and>
   (answer res \<noteq> [] \<longrightarrow>
      snd (resume2 AwaitResponse (Response (Some res)) st) = None \<and>
      \<not> isProcessing (fst (resume2 AwaitResponse (Response (Some res)) st)) \<and>
      last (notifications (fst (resume2 AwaitResponse (Response (Some res)) st))) =
        ''Claude has filled the field successfully!'') \<and>
   \<not> isProcessing (finish st) \<and>
   (activeElement unfocused = None \<and> \<not> isProcessing unfocused \<longrightarrow>
      handleClaudeButtonClick unfocused = (unfocused, None) \<and>
      handleClaudeButtonClick2 unfocused = (unfocused, None)) \<and>
   (\<not> isProcessing idle \<and> env_lastError env = Some failure \<longrightarrow>
      snd (click_request env idle) = None \<and> \<not> isProcessing (fst (click_request env idle)) \<and>
      snd (click_request2 env idle) = None \<and> \<not> isProcessing (fst (click_request2 env idle)))"
proof -
  have a: "handleClaudeButtonClick st = (started, Some p) \<longrightarrow>
      isProcessing started \<and> sent started = sent st"
    by (auto simp: handleClaudeButtonClick_def split: option.splits if_splits)
  have b: "handleClaudeButtonClick2 st = (started2, Some p2) \<longrightarrow>
      isProcessing started2 \<and> sent started2 = sent st"
    by (auto simp: handleClaudeButtonClick2_def split: option.splits if_splits)
  have c: "isProcessing busy \<and> currentConversationUrl busy = Some url \<and> url \<noteq> [] \<longrightarrow>
      handleClaudeButtonClick busy = (busy\<lparr>opened := opened busy @ [url]\<rparr>, None) \<and>
      handleClaudeButtonClick2 busy = (busy\<lparr>opened := opened busy @ [url]\<rparr>, None)"
    by (simp add: handleClaudeButtonClick_def handleClaudeButtonClick2_def)
  have d: "activeElement idle = Some a \<and> \<not> isProcessing idle \<longrightarrow>
      (\<exists>p. handleClaudeButtonClick idle = (idle\<lparr>isProcessing := True\<rparr>, Some p)) \<and>
      handleClaudeButtonClick2 idle = (idle\<lparr>isProcessing := True\<rparr>, Some AwaitSettings)"
    by (simp add: handleClaudeButtonClick_def handleClaudeButtonClick2_def)
  have f: "\<not> isProcessing (finish st)"
    by (simp add: finish_def)
  have n: "activeElement unfocused = None \<and> \<not> isProcessing unfocused \<longrightarrow>
      handleClaudeButtonClick unfocused = (unfocused, None) \<and>
      handleClaudeButtonClick2 unfocused = (unfocused, None)"
    by (simp add: handleClaudeButtonClick_def handleClaudeButtonClick2_def)
  have g: "\<not> isProcessing idle \<and> env_lastError env = Some failure \<longrightarrow>
      snd (click_request env idle) = None \<and> \<not> isProcessing (fst (click_request env idle)) \<and>
      snd (click_request2 env idle) = None \<and> \<not> isProcessing (fst (click_request2 env idle))"
    using click_request_returns [of env failure idle] click_request2_returns [of env failure idle]
    by blast
  have h: "answer res \<noteq> [] \<and> activeElement st = Some a \<and> inDocument (elements st a) \<longrightarrow>
      resume AwaitResponse (Response (Some res)) st =
        (store_url res st, Some (AwaitFocus (answer res)))"
    using resume_focus [of res st a] by blast
  have k: "answer res \<noteq> [] \<longrightarrow>
      snd (resume2 AwaitResponse (Response (Some res)) st) = None \<and>
      \<not> isProcessing (fst (resume2 AwaitResponse (Response (Some res)) st)) \<and>
      last (notifications (fst (resume2 AwaitResponse (Response (Some res)) st))) =
        ''Claude has filled the field successfully!''"
    using resume2_returns(4,5,6) [of res st] by blast
  have x1: "resume q i suspended = (returned, None) \<longrightarrow>
      \<not> isProcessing returned \<and>
      (clock suspended + 10000, ClearConversationUrl) \<in> set (timers returned) \<and>
      currentConversationUrl (run_timers (clock suspended + 10000) returned) = None"
    using exit_resets [OF resume_exit, of q i suspended returned] by blast
  have x2: "resume2 q i suspended = (returned2, None) \<longrightarrow>
      \<not> isProcessing returned2 \<and>
      (clock suspended + 10000, ClearConversationUrl) \<in> set (timers returned2) \<and>
      currentConversationUrl (run_timers (clock suspended + 10000) returned2) = None"
    using exit_resets [OF resume2_exit, of q i suspended returned2] by blast
  show ?thesis
    by (rule conjI a b c d f g h k n x1 x2 resume_returns resume2_returns(1,2,3))+
qed

lemma good_reply:
  "snd (snd (onMessage_askClaude a_runtime good_backend None request)) =
     Some \<lparr>answer = ''Ada'', conversationId = ''uuid-1'',
       chatUrl = ''https://claude.ai/chat/uuid-1'', newConversationCreated = True\<rparr>"
proof -
  have org: "organization_id good_backend None = ([organizations_request], Inr ''org-1'')"
    using organization_id_fetched [of None good_backend 200
        "\<lparr>org_uuid = ''org-1'', org_name = ''Ada''\<rparr>" "[]"]
    by (simp add: good_backend_def ok_def)
  obtain prompt attachments where sm:
    "sendMessage a_runtime good_backend ''org-1'' (conversation_uuid a_runtime)
        (msg_question request) =
      ([completion_request ''org-1'' (conversation_uuid a_runtime) prompt attachments],
       raised (completion good_backend) ''Failed to send message: '')"
    using sendMessage_shape [of a_runtime good_backend "''org-1''" "conversation_uuid a_runtime"
        "msg_question request"]
    by (auto simp: completion_request_def)
  obtain fx org r where t: "askClaude a_runtime good_backend None (msg_question request)
      (msg_projectId request) (msg_conversationTitle request) = (fx, org, r)"
    by (rule prod_cases3)
  have "r = Inr \<lparr>answer = ''Ada'', conversationId = conversation_uuid a_runtime,
       chatUrl = BASE_URL @ ''/chat/'' @ conversation_uuid a_runtime,
       newConversationCreated = True\<rparr>"
  proof -
    have h: "created good_backend = Responded 201 ''srv-7''" "ok 201"
      "completion good_backend = Responded 200 ''data: {}''" "ok 200"
      "conversation good_backend = Responded 200 (Some good_transcript)"
      "extractAnswer (Some good_transcript) = Inr ''Ada''"
      by (simp_all add: good_backend_def ok_def extractAnswer_def good_transcript_def)
    show ?thesis
      using askClaude_ok [OF org h(1,2,3,4,5,4,6) sm, of "msg_projectId request"
          "msg_conversationTitle request"]
      by (simp add: t)
  qed
  then show ?thesis
    unfolding onMessage_askClaude_def t by (simp add: a_runtime_def BASE_URL_def)
qed

lemma a_textarea_quiet: "\<not> needs_click a_textarea"
  by (simp add: needs_click_def a_textarea_def hasAttribute_def closest_def
      editor_selectors_def attribute_is_def getAttribute_def)

lemma a_field_detected:
  assumes "activeElement st = Some 0" and "surroundings st 0 = a_field"
  shows "detected \<lparr>defaultProject = None, autoDetect = True\<rparr> st = Inr ''Summary''"
  using assms by (simp add: detected_def detectFormQuestion_def a_field_def placeholder_def)

lemma click_request_success:
  "click_request an_environment a_page =
     (finish (showNotification ''Claude has filled the field successfully!''
        (a_page\<lparr>isProcessing := True,
           sent := [\<lparr>msg_question =
               createEnhancedPrompt ''Summary'' \<lparr>textContext = ''# Page'', screenshotData = None\<rparr>,
             msg_projectId = None,
             msg_conversationTitle = Some (generateConversationTitle ''Summary'')\<rparr>],
           currentConversationUrl := Some ''https://claude.ai/chat/uuid-1'',
           clock := 50,
           timers := [(100, InsertText 0 ''Ada'')]\<rparr>)), None)"
proof -
  have d: "inDocument a_textarea"
    by (simp add: a_textarea_def)
  show ?thesis
    by (simp add: click_request_def handleClaudeButtonClick_def proceed_def input_for_def
        delay_for_def elapse_def run_timers_def an_environment_def a_page_def a_field_detected
        a_textarea_quiet good_reply sendMessageToBackground_def store_url_def d)
qed

lemma click_request_cancelled:
  "click_request (an_environment\<lparr>env_settings := \<lparr>defaultProject = None, autoDetect = False\<rparr>\<rparr>)
     a_page = (finish (cancelled (a_page\<lparr>isProcessing := True\<rparr>)), None)"
  by (simp add: click_request_def handleClaudeButtonClick_def proceed_def input_for_def
      delay_for_def elapse_def an_environment_def a_page_def detected_def a_textarea_quiet)

theorem trigger_state_machine_witness:
  "handleClaudeButtonClick a_page = (a_page\<lparr>isProcessing := True\<rparr>, Some AwaitSettings) \<and>
   isProcessing (a_page\<lparr>isProcessing := True\<rparr>) \<and>
   resume AwaitResponse (Rejection ''offline'') (a_page\<lparr>isProcessing := True\<rparr>) =
     (finish (caught ''offline'' (a_page\<lparr>isProcessing := True\<rparr>)), None) \<and>
   \<not> isProcessing (finish (caught ''offline'' (a_page\<lparr>isProcessing := True\<rparr>))) \<and>
   currentConversationUrl (run_timers (clock (a_page\<lparr>isProcessing := True\<rparr>) + 10000)
     (finish (caught ''offline'' (a_page\<lparr>isProcessing := True\<rparr>)))) = None \<and>
   handleClaudeButtonClick
     (a_page\<lparr>isProcessing := True, currentConversationUrl := Some ''https://claude.ai/chat/u''\<rparr>) =
     (a_page\<lparr>isProcessing := True, currentConversationUrl := Some ''https://claude.ai/chat/u'',
        opened := [''https://claude.ai/chat/u'']\<rparr>, None) \<and>
   \<not> isProcessing a_page \<and>
   env_lastError an_environment = Some ''The message port closed before a response was received.'' \<and>
   snd (click_request an_environment a_page) = None \<and>
   \<not> isProcessing (fst (click_request an_environment a_page)) \<and>
   notifications (fst (click_request an_environment a_page)) =
     [''Claude has filled the field successfully!''] \<and>
   timers (fst (click_request an_environment a_page)) =
     [(100, InsertText 0 ''Ada''), (10050, ClearConversationUrl)] \<and>
   currentConversationUrl (fst (click_request an_environment a_page)) =
     Some ''https://claude.ai/chat/uuid-1'' \<and>
   elem_value (elements (run_timers 10050 (fst (click_request an_environment a_page))) 0) = ''Ada'' \<and>
   currentConversationUrl (run_timers 10050 (fst (click_request an_environment a_page))) = None \<and>
   snd (click_request
     (an_environment\<lparr>env_settings := \<lparr>defaultProject = None, autoDetect = False\<rparr>\<rparr>) a_page) = None \<and>
   \<not> isProcessing (fst (click_request
     (an_environment\<lparr>env_settings := \<lparr>defaultProject = None, autoDetect = False\<rparr>\<rparr>) a_page)) \<and>
   sent (fst (click_request
     (an_environment\<lparr>env_settings := \<lparr>defaultProject = None, autoDetect = False\<rparr>\<rparr>) a_page)) = [] \<and>
   snd (click_request2 an_environment a_page) = None \<and>
   \<not> isProcessing (fst (click_request2 an_environment a_page)) \<and>
   handleClaudeButtonClick (a_page\<lparr>activeElement := None\<rparr>) =
     (a_page\<lparr>activeElement := None\<rparr>, None)"
proof -
  have c: "handleClaudeButtonClick a_page = (a_page\<lparr>isProcessing := True\<rparr>, Some AwaitSettings)"
    using a_textarea_quiet by (simp add: handleClaudeButtonClick_def a_page_def)
  have r: "resume AwaitResponse (Rejection ''offline'') (a_page\<lparr>isProcessing := True\<rparr>) =
     (finish (caught ''offline'' (a_page\<lparr>isProcessing := True\<rparr>)), None)"
    by simp
  have u: "isProcessing (a_page\<lparr>isProcessing := True, currentConversationUrl := Some ''https://claude.ai/chat/u''\<rparr>) \<and>
      currentConversationUrl (a_page\<lparr>isProcessing := True, currentConversationUrl := Some ''https://claude.ai/chat/u''\<rparr>) =
        Some ''https://claude.ai/chat/u'' \<and> ''https://claude.ai/chat/u'' \<noteq> []"
    by simp
  have o: "opened a_page = [] \<and> \<not> isProcessing a_page"
    by (simp add: a_page_def)
  have e: "env_lastError an_environment =
      Some ''The message port closed before a response was received.'' \<and>
      env_lastError (an_environment\<lparr>env_settings := \<lparr>defaultProject = None, autoDetect = False\<rparr>\<rparr>) =
      Some ''The message port closed before a response was received.''"
    by (simp add: an_environment_def)
  have s: "notifications (fst (click_request an_environment a_page)) =
     [''Claude has filled the field successfully!''] \<and>
   timers (fst (click_request an_environment a_page)) =
     [(100, InsertText 0 ''Ada''), (10050, ClearConversationUrl)] \<and>
   currentConversationUrl (fst (click_request an_environment a_page)) =
     Some ''https://claude.ai/chat/uuid-1''"
    unfolding click_request_success
    by (simp add: finish_def showNotification_def a_page_def)
  have t: "elem_value (elements (run_timers 10050 (fst (click_request an_environment a_page))) 0) =
      ''Ada'' \<and>
   currentConversationUrl (run_timers 10050 (fst (click_request an_environment a_page))) = None"
    unfolding click_request_success
    by (simp add: finish_def showNotification_def a_page_def run_timers_def a_textarea_def
        insertTextIntoElement_def type_property_def getAttribute_def hasAttribute_def
        closest_def editor_selectors_def attribute_is_def Let_def)
  have n: "sent (fst (click_request
     (an_environment\<lparr>env_settings := \<lparr>defaultProject = None, autoDetect = False\<rparr>\<rparr>) a_page)) = []"
    unfolding click_request_cancelled by (simp add: finish_def cancelled_def a_page_def)
  note th = trigger_state_machine [where st = a_page and started = "a_page\<lparr>isProcessing := True\<rparr>"
      and p = AwaitSettings and q = AwaitResponse and i = "Rejection ''offline''"
      and suspended = "a_page\<lparr>isProcessing := True\<rparr>"
      and returned = "finish (caught ''offline'' (a_page\<lparr>isProcessing := True\<rparr>))"
      and busy = "a_page\<lparr>isProcessing := True,
        currentConversationUrl := Some ''https://claude.ai/chat/u''\<rparr>"
      and url = "''https://claude.ai/chat/u''" and idle = a_page and env = an_environment
      and failure = "''The message port closed before a response was received.''"]
  note th_cancel = trigger_state_machine [where idle = a_page
      and env = "an_environment\<lparr>env_settings := \<lparr>defaultProject = None, autoDetect = False\<rparr>\<rparr>"
      and failure = "''The message port closed before a response was received.''"]
  have x: "\<not> isProcessing (finish (caught ''offline'' (a_page\<lparr>isProcessing := True\<rparr>))) \<and>
      currentConversationUrl (run_timers (clock (a_page\<lparr>isProcessing := True\<rparr>) + 10000)
        (finish (caught ''offline'' (a_page\<lparr>isProcessing := True\<rparr>)))) = None"
    using th [THEN conjunct2, THEN conjunct2, THEN conjunct1] r by simp
  have b: "handleClaudeButtonClick
     (a_page\<lparr>isProcessing := True, currentConversationUrl := Some ''https://claude.ai/chat/u''\<rparr>) =
     (a_page\<lparr>isProcessing := True, currentConversationUrl := Some ''https://claude.ai/chat/u'',
        opened := [''https://claude.ai/chat/u'']\<rparr>, None)"
    using th [THEN conjunct2, THEN conjunct2, THEN conjunct2, THEN conjunct1] u o by simp
  have g: "snd (click_request an_environment a_page) = None \<and>
      \<not> isProcessing (fst (click_request an_environment a_page)) \<and>
      snd (click_request2 an_environment a_page) = None \<and>
      \<not> isProcessing (fst (click_request2 an_environment a_page))"
    using th [THEN conjunct2, THEN conjunct2, THEN conjunct2, THEN conjunct2, THEN conjunct2, THEN conjunct2, THEN conjunct2, THEN conjunct2, THEN conjunct2, THEN conjunct2, THEN conjunct2, THEN conjunct2, THEN conjunct2, THEN conjunct2, THEN conjunct2, THEN conjunct2, THEN conjunct2, THEN conjunct2, THEN conjunct2, THEN conjunct2] o e by simp
  have k: "snd (click_request
       (an_environment\<lparr>env_settings := \<lparr>defaultProject = None, autoDetect = False\<rparr>\<rparr>) a_page) = None \<and>
     \<not> isProcessing (fst (click_request
       (an_environment\<lparr>env_settings := \<lparr>defaultProject = None, autoDetect = False\<rparr>\<rparr>) a_page))"
    using th_cancel [THEN conjunct2, THEN conjunct2, THEN conjunct2, THEN conjunct2, THEN conjunct2, THEN conjunct2, THEN conjunct2, THEN conjunct2, THEN conjunct2, THEN conjunct2, THEN conjunct2, THEN conjunct2, THEN conjunct2, THEN conjunct2, THEN conjunct2, THEN conjunct2, THEN conjunct2, THEN conjunct2, THEN conjunct2, THEN conjunct2] o e by simp
  have v: "handleClaudeButtonClick (a_page\<lparr>activeElement := None\<rparr>) =
     (a_page\<lparr>activeElement := None\<rparr>, None)"
    using trigger_state_machine [where unfocused = "a_page\<lparr>activeElement := None\<rparr>",
        THEN conjunct2, THEN conjunct2, THEN conjunct2, THEN conjunct2, THEN conjunct2,
        THEN conjunct2, THEN conjunct2, THEN conjunct2, THEN conjunct2, THEN conjunct2,
        THEN conjunct2, THEN conjunct2, THEN conjunct2, THEN conjunct2, THEN conjunct2,
        THEN conjunct2, THEN conjunct2, THEN conjunct2, THEN conjunct2, THEN conjunct1] o
    by simp
  show ?thesis
    using c r x b o e s t n g k v by simp
qed

section \<open>Properties of the answer and of failures\<close>

lemma no_answer:
  "answer res = [] \<Longrightarrow>
     resume AwaitResponse (Response (Some res)) st =
       (finish (showNotification ''Error getting response from Claude. Please try again.'' st), None) \<and>
     resume2 AwaitResponse (Response (Some res)) st =
       (finish (showNotification ''Error getting response from Claude. Please try again.'' st), None)"
  by simp

lemma notification_frame:
  "elements (finish (showNotification m st)) = elements st \<and>
   timers (finish (showNotification m st)) = timers st @ [(clock st + 10000, ClearConversationUrl)]"
  by (simp add: finish_def showNotification_def)

text \<open>
  C9, as the code has it. \<open>extractAnswer\<close> returns the empty string, and raises
  nothing, for a response that is \<open>null\<close>, that has no \<open>chat_messages\<close>, that has
  fewer than two messages, whose second message is an object without \<open>content\<close> or
  with an empty \<open>content\<close>, or whose first content entry is an object without
  \<open>text\<close> or with an empty \<open>text\<close>. With an empty answer the click handler of
  either script shows the notification \<open>Error getting response from Claude. Please try
  again.\<close> and returns; it changes no element and sets no timer that would.
\<close>

theorem extractAnswer_empty:
  "extractAnswer None = Inr [] \<and>
   extractAnswer (Some \<lparr>chat_messages = None\<rparr>) = Inr [] \<and>
   (length messages < 2 \<longrightarrow> extractAnswer (Some \<lparr>chat_messages = Some messages\<rparr>) = Inr []) \<and>
   extractAnswer (Some \<lparr>chat_messages = Some (first # Some \<lparr>content = None\<rparr> # others)\<rparr>) = Inr [] \<and>
   extractAnswer (Some \<lparr>chat_messages = Some (first # Some \<lparr>content = Some []\<rparr> # others)\<rparr>) = Inr [] \<and>
   extractAnswer (Some \<lparr>chat_messages = Some
      (first # Some \<lparr>content = Some (Some \<lparr>entry_text = None\<rparr> # entries)\<rparr> # others)\<rparr>) = Inr [] \<and>
   extractAnswer (Some \<lparr>chat_messages = Some
      (first # Some \<lparr>content = Some (Some \<lparr>entry_text = Some []\<rparr> # entries)\<rparr> # others)\<rparr>) = Inr [] \<and>
   (answer res = [] \<longrightarrow>
      resume AwaitResponse (Response (Some res)) st =
        (finish (showNotification ''Error getting response from Claude. Please try again.'' st), None) \<and>
      resume2 AwaitResponse (Response (Some res)) st =
        (finish (showNotification ''Error getting response from Claude. Please try again.'' st), None) \<and>
      elements (fst (resume AwaitResponse (Response (Some res)) st)) = elements st \<and>
      elements (fst (resume2 AwaitResponse (Response (Some res)) st)) = elements st \<and>
      timers (fst (resume AwaitResponse (Response (Some res)) st)) =
        timers st @ [(clock st + 10000, ClearConversationUrl)])"
proof -
  have a: "length messages < 2 \<longrightarrow> extractAnswer (Some \<lparr>chat_messages = Some messages\<rparr>) = Inr []"
    by (simp add: extractAnswer_def)
  have b: "answer res = [] \<longrightarrow>
      elements (fst (resume AwaitResponse (Response (Some res)) st)) = elements st \<and>
      elements (fst (resume2 AwaitResponse (Response (Some res)) st)) = elements st \<and>
      timers (fst (resume AwaitResponse (Response (Some res)) st)) =
        timers st @ [(clock st + 10000, ClearConversationUrl)]"
    using no_answer [of res st] notification_frame [of _ st] by simp
  show ?thesis
    using a b no_answer [of res st] by (simp add: extractAnswer_def)
qed

theorem extractAnswer_empty_witness:
  "length ([] :: chat_message option list) < 2 \<and>
   extractAnswer (Some \<lparr>chat_messages = Some []\<rparr>) = Inr [] \<and>
   answer \<lparr>answer = [], conversationId = ''uuid-1'', chatUrl = ''https://claude.ai/chat/uuid-1'',
     newConversationCreated = True\<rparr> = [] \<and>
   notifications (fst (resume2 AwaitResponse
     (Response (Some \<lparr>answer = [], conversationId = ''uuid-1'',
        chatUrl = ''https://claude.ai/chat/uuid-1'', newConversationCreated = True\<rparr>)) a_page)) =
     [''Error getting response from Claude. Please try again.''] \<and>
   elements (fst (resume2 AwaitResponse
     (Response (Some \<lparr>answer = [], conversationId = ''uuid-1'',
        chatUrl = ''https://claude.ai/chat/uuid-1'', newConversationCreated = True\<rparr>)) a_page)) =
     elements a_page"
  using extractAnswer_empty [of "[]" _ _ _
      "\<lparr>answer = [], conversationId = ''uuid-1'', chatUrl = ''https://claude.ai/chat/uuid-1'',
        newConversationCreated = True\<rparr>" a_page]
  by (simp add: finish_def showNotification_def a_page_def)

text \<open>
  C9 as it is stated fails: \<open>extractAnswer\<close> is not total. For a transcript whose
  second message is \<open>null\<close> it reads \<open>content\<close> of \<open>null\<close> and raises a
  \<open>TypeError\<close>, which rejects the promise of \<open>askClaude\<close>.
\<close>

theorem extractAnswer_null_counterexample:
  "extractAnswer (Some null_transcript) =
     Inl (TypeError ''Cannot read properties of null (reading 'content')'') \<and>
   snd (snd (askClaude a_runtime (good_backend\<lparr>conversation := Responded 200 (Some null_transcript)\<rparr>)
     None ''Summary'' None None)) =
     Inl (TypeError ''Cannot read properties of null (reading 'content')'')"
  by (simp add: extractAnswer_def null_transcript_def askClaude_def organization_id_def
      fetchOrganizations_def raised_def good_backend_def ok_def createConversation_def
      sendMessage_def default_name_def Let_def)

text \<open>
  C3 at a failing input. The organizations call answers with the status 500:
  \<open>askClaude\<close> raises \<open>Failed to fetch organizations: 500\<close> after that one request.
  The listener of the background script sends no response for a rejected promise, so
  the handler of the content script gets at most the error of the browser for an
  unanswered message: the notification it shows is that error and does not name the
  status, and when the browser reports nothing the handler stays suspended with
  \<open>isProcessing\<close> set. The field keeps its value in both cases.
\<close>

theorem backend_failure_notification:
  "askClaude a_runtime failing_backend None ''Summary'' None None =
     ([organizations_request], None, Inl (Error ''Failed to fetch organizations: 500'')) \<and>
   notifications (fst (click_request2 (an_environment\<lparr>env_backend := failing_backend\<rparr>) a_page)) =
     [''Error: The message port closed before a response was received.''] \<and>
   elem_value (elements (fst (click_request2
     (an_environment\<lparr>env_backend := failing_backend\<rparr>) a_page)) 0) = ''draft'' \<and>
   notifications (fst (click_request (an_environment\<lparr>env_backend := failing_backend\<rparr>) a_page)) =
     [''Error: The message port closed before a response was received.''] \<and>
   snd (click_request2
     (an_environment\<lparr>env_backend := failing_backend, env_lastError := None\<rparr>) a_page) =
     Some AwaitResponse \<and>
   isProcessing (fst (click_request2
     (an_environment\<lparr>env_backend := failing_backend, env_lastError := None\<rparr>) a_page)) \<and>
   notifications (fst (click_request2
     (an_environment\<lparr>env_backend := failing_backend, env_lastError := None\<rparr>) a_page)) = []"
proof -
  have ask: "askClaude a_runtime failing_backend None q pr t =
     ([organizations_request], None, Inl (Error ''Failed to fetch organizations: 500''))" for q pr t
    by (simp add: askClaude_def organization_id_def fetchOrganizations_def raised_def
        failing_backend_def good_backend_def ok_def organizations_request_def decimal.simps)
  note det = a_field_detected
  have reply: "snd (snd (onMessage_askClaude a_runtime failing_backend None request)) = None"
    for request
    by (simp add: onMessage_askClaude_def ask)
  have quiet: "\<not> needs_click a_textarea"
    by (simp add: needs_click_def a_textarea_def hasAttribute_def closest_def
        editor_selectors_def attribute_is_def getAttribute_def)
  have two: "click_request2 env a_page =
     (case e of
        None \<Rightarrow>
          (a_page\<lparr>isProcessing := True,
             sent := [\<lparr>msg_question = ''Summary'', msg_projectId = None,
               msg_conversationTitle = None\<rparr>]\<rparr>, Some AwaitResponse)
      | Some m \<Rightarrow>
          (finish (caught m (a_page\<lparr>isProcessing := True,
             sent := [\<lparr>msg_question = ''Summary'', msg_projectId = None,
               msg_conversationTitle = None\<rparr>]\<rparr>)), None))"
    if "env_settings env = \<lparr>defaultProject = None, autoDetect = True\<rparr>"
      and "env_runtime env = a_runtime" and "env_backend env = failing_backend"
      and "env_orgId env = None" and "env_lastError env = e" for env e
    using that
    by (simp add: click_request2_def handleClaudeButtonClick2_def proceed_def input_for_def delay_for_def elapse_def
        a_page_def det ask2_def reply sendMessageToBackground_def split: option.splits)
  have one: "notifications (fst (click_request env a_page)) = [''Error: '' @ m]"
    if "env_settings env = \<lparr>defaultProject = None, autoDetect = True\<rparr>"
      and "env_runtime env = a_runtime" and "env_backend env = failing_backend"
      and "env_orgId env = None" and "env_lastError env = Some m" and "m \<noteq> []" for env m
    using that
    by (simp add: click_request_def handleClaudeButtonClick_def proceed_def input_for_def delay_for_def elapse_def
        a_page_def det reply sendMessageToBackground_def quiet finish_def caught_def
        showNotification_def)
  show ?thesis
    using ask [of "''Summary''" None None]
      two [of "an_environment\<lparr>env_backend := failing_backend\<rparr>"
        "Some ''The message port closed before a response was received.''"]
      two [of "an_environment\<lparr>env_backend := failing_backend, env_lastError := None\<rparr>" None]
      one [of "an_environment\<lparr>env_backend := failing_backend\<rparr>"
        "''The message port closed before a response was received.''"]
    by (simp add: an_environment_def finish_def caught_def showNotification_def a_page_def
        a_textarea_def)
qed


lemma first_script_checks_containment:
  assumes "activeElement st = Some a" and "\<not> inDocument (elements st a)" and "answer res \<noteq> []"
  shows "resume AwaitResponse (Response (Some res)) st =
     (finish (showNotification ''Error: The form field is no longer available''
        (store_url res st)), None) \<and>
     elements (fst (resume AwaitResponse (Response (Some res)) st)) = elements st"
  using assms by (simp add: store_url_def finish_def showNotification_def)

text \<open>
  C7 at a failing input. The active textarea has been removed from the document when
  the answer \<open>Ada\<close> arrives. The handler of the second script does not look whether
  the document still contains the field: it writes the answer into the removed
  textarea and reports success. The handler of the first script, on the same input,
  writes nothing and shows \<open>Error: The form field is no longer available\<close>.
\<close>

theorem removed_field_written:
  "\<not> inDocument (elements detached_page 0) \<and>
   elem_value (elements detached_page 0) = ''draft'' \<and>
   elem_value (elements (fst (click_request2 an_environment detached_page)) 0) = ''Ada'' \<and>
   notifications (fst (click_request2 an_environment detached_page)) =
     [''Claude has filled the field successfully!''] \<and>
   notifications (fst (click_request an_environment detached_page)) =
     [''Error: The form field is no longer available''] \<and>
   timers (fst (click_request an_environment detached_page)) = [(10000, ClearConversationUrl)] \<and>
   elements (fst (click_request an_environment detached_page)) = elements detached_page"
proof -
  note det = a_field_detected
  have quiet: "\<not> needs_click (a_textarea\<lparr>inDocument := False\<rparr>)"
    by (simp add: needs_click_def a_textarea_def hasAttribute_def closest_def
        editor_selectors_def attribute_is_def getAttribute_def)
  have two: "click_request2 an_environment detached_page =
     (finish (showNotification ''Claude has filled the field successfully!''
        (detached_page\<lparr>isProcessing := True,
           sent := [\<lparr>msg_question = ''Summary'', msg_projectId = None,
             msg_conversationTitle = None\<rparr>],
           currentConversationUrl := Some ''https://claude.ai/chat/uuid-1'',
           elements := (elements detached_page)
             (0 := insertTextIntoElement2 (elements detached_page 0) ''Ada'')\<rparr>)), None)"
    by (simp add: click_request2_def handleClaudeButtonClick2_def proceed_def input_for_def delay_for_def elapse_def
        an_environment_def detached_page_def a_page_def det ask2_def good_reply
        sendMessageToBackground_def store_url_def)
  have one: "click_request an_environment detached_page =
     (finish (showNotification ''Error: The form field is no longer available''
        (detached_page\<lparr>isProcessing := True,
           sent := [\<lparr>msg_question =
               createEnhancedPrompt ''Summary'' \<lparr>textContext = ''# Page'', screenshotData = None\<rparr>,
             msg_projectId = None,
             msg_conversationTitle = Some (generateConversationTitle ''Summary'')\<rparr>],
           currentConversationUrl := Some ''https://claude.ai/chat/uuid-1''\<rparr>)), None)"
    by (simp add: click_request_def handleClaudeButtonClick_def proceed_def input_for_def delay_for_def elapse_def
        an_environment_def detached_page_def a_page_def det quiet good_reply
        sendMessageToBackground_def store_url_def)
  show ?thesis
    unfolding one two
    by (simp add: finish_def showNotification_def detached_page_def a_page_def a_textarea_def
        insertTextIntoElement2_def)
qed

section \<open>Properties of the conversation\<close>

lemma createConversation_fx:
  "fst (createConversation rt b orgId projId (Some name)) =
     [conversation_request orgId (conversation_name rt (Some name)) projId (conversation_uuid rt)]"
  by (simp add: createConversation_def conversation_request_def conversation_name_def Let_def)

lemma createConversation_id:
  "createConversation rt b orgId projId name = (fx, Inr chatId) \<Longrightarrow> chatId = conversation_uuid rt"
  by (auto simp: createConversation_def Let_def split: sum.splits)

lemma askClaude_creates:
  assumes "organization_id b currentOrgId = (fx0, Inr orgId)"
  shows "\<exists>rest. fst (askClaude rt b currentOrgId question projectId title) =
     fx0 @ conversation_request orgId (conversation_name rt title) projectId (conversation_uuid rt) # rest"
proof -
  obtain r where c: "createConversation rt b orgId projectId (Some (conversation_name rt title)) =
     ([conversation_request orgId (conversation_name rt title) projectId (conversation_uuid rt)], r)"
    using createConversation_fx [of rt b orgId projectId "conversation_name rt title"]
    by (cases "createConversation rt b orgId projectId (Some (conversation_name rt title))")
       (simp add: conversation_name_idem)
  show ?thesis
    unfolding askClaude_def conversation_name_def [symmetric]
    by (simp add: assms c Let_def split: sum.splits prod.splits)
qed

lemma askClaude_id:
  assumes "askClaude rt b currentOrgId question projectId title = (fx, org, Inr res)"
  shows "conversationId res = conversation_uuid rt"
  using assms createConversation_id [of rt b _ projectId "Some (conversation_name rt title)"]
  unfolding askClaude_def conversation_name_def [symmetric]
  by (auto simp: Let_def split: sum.splits prod.splits)

lemma title_shape:
  "\<exists>title. generateConversationTitle question = ''Form: '' @ title \<and>
     list_all (\<lambda>c. \<not> is_markdown_char c) title \<and> length title \<le> 60 \<and>
     (length (filter (\<lambda>c. \<not> is_markdown_char c) (trim question)) \<le> 50 \<longrightarrow>
        title = filter (\<lambda>c. \<not> is_markdown_char c) (trim question))"
proof -
  define cleaned where "cleaned = filter (\<lambda>c. \<not> is_markdown_char c) (trim question)"
  have c: "list_all (\<lambda>c. \<not> is_markdown_char c) cleaned"
    by (simp add: cleaned_def list_all_iff)
  then have t: "list_all (\<lambda>c. \<not> is_markdown_char c) (take n cleaned)" for n
    by (auto simp: list_all_iff dest: in_set_takeD)
  have d: "list_all (\<lambda>c. \<not> is_markdown_char c) ''...''"
    by (simp add: is_markdown_char_def)
  show ?thesis
    unfolding generateConversationTitle_def Let_def cleaned_def [symmetric]
    using c t d by (auto split: option.splits)
qed


lemma search_first:
  assumes "P c" and "\<forall>x\<in>set pre. \<not> P x"
  shows "search P (pre @ c # post) = Some (length pre)"
proof -
  have "takeWhile (\<lambda>x. \<not> P x) (pre @ c # post) = pre"
    using assms by (simp add: takeWhile_tail)
  then show ?thesis
    using assms(1) by (simp add: search_def)
qed

lemma search_none: "\<forall>x\<in>set s. \<not> P x \<Longrightarrow> search P s = None"
  by (simp add: search_def list_ex_iff)

lemma title_rule:
  assumes "cleaned = filter (\<lambda>c. c \<notin> set ''#*_~`'') (trim asked)"
  shows "(length cleaned \<le> 50 \<longrightarrow> generateConversationTitle asked = ''Form: '' @ cleaned) \<and>
     (50 < length cleaned \<longrightarrow>
        (\<forall>pre c post.
           cleaned = pre @ c # post \<and> c \<in> set ''.!?'' \<and> (\<forall>x\<in>set pre. x \<notin> set ''.!?'') \<longrightarrow>
           generateConversationTitle asked =
             ''Form: '' @ (if length pre < 60 then pre @ [c] else take 47 cleaned @ ''...'')) \<and>
        ((\<forall>x\<in>set cleaned. x \<notin> set ''.!?'') \<longrightarrow>
           generateConversationTitle asked = ''Form: '' @ take 47 cleaned @ ''...''))"
proof -
  have c: "filter (\<lambda>c. \<not> is_markdown_char c) (trim asked) = cleaned"
    unfolding assms is_markdown_char_def ..
  have short: "generateConversationTitle asked = ''Form: '' @ cleaned" if "length cleaned \<le> 50"
    using that unfolding generateConversationTitle_def Let_def c by simp
  have cut: "generateConversationTitle asked =
      ''Form: '' @ (if length pre < 60 then pre @ [x] else take 47 cleaned @ ''...'')"
    if "50 < length cleaned" and "cleaned = pre @ x # post" and "x \<in> set ''.!?''"
      and "\<forall>y\<in>set pre. y \<notin> set ''.!?''" for pre x post
  proof -
    have s: "search is_sentence_end cleaned = Some (length pre)"
      unfolding that(2) using that(3,4)
      by (intro search_first) (simp_all add: is_sentence_end_def)
    have t: "take (Suc (length pre)) cleaned = pre @ [x]"
      by (simp add: that(2))
    show ?thesis
      using that(1) unfolding generateConversationTitle_def Let_def c s by (simp add: t)
  qed
  have none: "generateConversationTitle asked = ''Form: '' @ take 47 cleaned @ ''...''"
    if "50 < length cleaned" and "\<forall>y\<in>set cleaned. y \<notin> set ''.!?''"
  proof -
    have s: "search is_sentence_end cleaned = None"
      using that(2) by (intro search_none) (simp add: is_sentence_end_def)
    show ?thesis
      using that(1) unfolding generateConversationTitle_def Let_def c s by simp
  qed
  show ?thesis
    using short cut none by blast
qed

text \<open>
  C8, as the code has it. Every \<open>askClaude\<close> request that has an organization
  creates a conversation, whatever project is given: no existing conversation is used.
  The conversation is identified by the UUID that the extension itself draws with
  \<open>crypto.randomUUID()\<close> and sends to the service, not by one the service issues.
  Its name is the title the content script passes, and \<open>Form Assistant - \<close> with
  the date when none is passed. The click handler of the first script passes
  \<open>generateConversationTitle(question)\<close>, which is \<open>Form: \<close> followed by the
  trimmed question without the characters \<open>#*_~`\<close>: as it is when it has at most
  50 characters; otherwise cut after its first \<open>.\<close>, \<open>!\<close> or \<open>?\<close> when that
  stands before index 60, and else cut to its first 47 characters followed by
  \<open>...\<close>. So the title has at most 60 characters after \<open>Form: \<close>.
\<close>

theorem conversation_created:
  "(organization_id b currentOrgId = (fx0, Inr orgId) \<longrightarrow>
      (\<exists>rest. fst (askClaude rt b currentOrgId question projectId title) =
         fx0 @ conversation_request orgId (conversation_name rt title) projectId
           (conversation_uuid rt) # rest)) \<and>
   (askClaude rt b currentOrgId question projectId title = (fx, org, Inr res) \<longrightarrow>
      conversationId res = conversation_uuid rt) \<and>
   conversation_name rt None = ''Form Assistant - '' @ locale_date rt \<and>
   conversation_name rt (Some (generateConversationTitle asked)) = generateConversationTitle asked \<and>
   resume (AwaitContext s asked) (Context pageContext) st =
     (st\<lparr>sent := sent st @
         [\<lparr>msg_question = createEnhancedPrompt asked pageContext,
           msg_projectId = defaultProject s,
           msg_conversationTitle = Some (generateConversationTitle asked)\<rparr>]\<rparr>,
      Some AwaitResponse) \<and>
   (\<exists>cut. generateConversationTitle asked = ''Form: '' @ cut \<and>
      list_all (\<lambda>c. \<not> is_markdown_char c) cut \<and> length cut \<le> 60 \<and>
      (length (filter (\<lambda>c. \<not> is_markdown_char c) (trim asked)) \<le> 50 \<longrightarrow>
         cut = filter (\<lambda>c. \<not> is_markdown_char c) (trim asked))) \<and>
   (cleaned = filter (\<lambda>c. c \<notin> set ''#*_~`'') (trim asked) \<and> length cleaned \<le> 50 \<longrightarrow>
      generateConversationTitle asked = ''Form: '' @ cleaned) \<and>
   (cleaned = filter (\<lambda>c. c \<notin> set ''#*_~`'') (trim asked) \<and> 50 < length cleaned \<and>
    cleaned = pre @ c # post \<and> c \<in> set ''.!?'' \<and> (\<forall>x\<in>set pre. x \<notin> set ''.!?'') \<longrightarrow>
      generateConversationTitle asked =
        ''Form: '' @ (if length pre < 60 then pre @ [c] else take 47 cleaned @ ''...'')) \<and>
   (cleaned = filter (\<lambda>c. c \<notin> set ''#*_~`'') (trim asked) \<and> 50 < length cleaned \<and>
    (\<forall>x\<in>set cleaned. x \<notin> set ''.!?'') \<longrightarrow>
      generateConversationTitle asked = ''Form: '' @ take 47 cleaned @ ''...'')"
proof -
  have n: "conversation_name rt (Some (generateConversationTitle asked)) =
      generateConversationTitle asked"
    by (simp add: conversation_name_def generateConversationTitle_def Let_def)
  have d: "conversation_name rt None = ''Form Assistant - '' @ locale_date rt"
    by (simp add: conversation_name_def default_name_def)
  have a: "organization_id b currentOrgId = (fx0, Inr orgId) \<longrightarrow>
      (\<exists>rest. fst (askClaude rt b currentOrgId question projectId title) =
         fx0 @ conversation_request orgId (conversation_name rt title) projectId
           (conversation_uuid rt) # rest)"
    using askClaude_creates [of b currentOrgId fx0 orgId rt question projectId title] by blast
  have i: "askClaude rt b currentOrgId question projectId title = (fx, org, Inr res) \<longrightarrow>
      conversationId res = conversation_uuid rt"
    using askClaude_id [of rt b currentOrgId question projectId title fx org res] by blast
  have r: "resume (AwaitContext s asked) (Context pageContext) st =
     (st\<lparr>sent := sent st @
         [\<lparr>msg_question = createEnhancedPrompt asked pageContext,
           msg_projectId = defaultProject s,
           msg_conversationTitle = Some (generateConversationTitle asked)\<rparr>]\<rparr>,
      Some AwaitResponse)"
    by simp
  have t1: "cleaned = filter (\<lambda>c. c \<notin> set ''#*_~`'') (trim asked) \<and> length cleaned \<le> 50 \<longrightarrow>
      generateConversationTitle asked = ''Form: '' @ cleaned"
    using title_rule [of cleaned asked] by blast
  have t2: "cleaned = filter (\<lambda>c. c \<notin> set ''#*_~`'') (trim asked) \<and> 50 < length cleaned \<and>
    cleaned = pre @ c # post \<and> c \<in> set ''.!?'' \<and> (\<forall>x\<in>set pre. x \<notin> set ''.!?'') \<longrightarrow>
      generateConversationTitle asked =
        ''Form: '' @ (if length pre < 60 then pre @ [c] else take 47 cleaned @ ''...'')"
    using title_rule [of cleaned asked] by blast
  have t3: "cleaned = filter (\<lambda>c. c \<notin> set ''#*_~`'') (trim asked) \<and> 50 < length cleaned \<and>
    (\<forall>x\<in>set cleaned. x \<notin> set ''.!?'') \<longrightarrow>
      generateConversationTitle asked = ''Form: '' @ take 47 cleaned @ ''...''"
    using title_rule [of cleaned asked] by blast
  show ?thesis
    by (rule conjI a i d n r title_shape t1 t2 t3)+
qed

theorem conversation_created_witness:
  "organization_id good_backend None = ([organizations_request], Inr ''org-1'') \<and>
   take 2 (fst (askClaude a_runtime good_backend None ''Summary'' (Some ''project-9'') None)) =
     [organizations_request,
      conversation_request ''org-1'' ''Form Assistant - 1/1/2025'' (Some ''project-9'') ''uuid-1''] \<and>
   length (filter (\<lambda>c. \<not> is_markdown_char c) (trim '' **Your name?** '')) \<le> 50 \<and>
   generateConversationTitle '' **Your name?** '' = ''Form: Your name?'' \<and>
   50 < length ''Please describe your previous work experience in detail. Include dates and employers.'' \<and>
   generateConversationTitle
     '' Please describe your *previous* work experience in detail. Include dates and employers.'' =
     ''Form: Please describe your previous work experience in detail.'' \<and>
   generateConversationTitle
     ''Please describe your previous work experience and the reasons for leaving each job'' =
     ''Form: Please describe your previous work experience a...'' \<and>
   generateConversationTitle
     ''Please describe your previous work experience and the reasons for leaving. Thanks'' =
     ''Form: Please describe your previous work experience a...''"
proof -
  have org: "organization_id good_backend None = ([organizations_request], Inr ''org-1'')"
    using organization_id_fetched [of None good_backend 200
        "\<lparr>org_uuid = ''org-1'', org_name = ''Ada''\<rparr>" "[]"]
    by (simp add: good_backend_def ok_def)
  have f: "filter (\<lambda>c. c \<notin> set ''#*_~`'') (trim '' **Your name?** '') = ''Your name?''"
    by (simp add: trim_def is_ws_def)
  note th = conversation_created [where b = good_backend and currentOrgId = None
      and ?fx0.0 = "[organizations_request]" and orgId = "''org-1''" and rt = a_runtime
      and question = "''Summary''" and projectId = "Some ''project-9''" and title = None
      and asked = "'' **Your name?** ''" and cleaned = "''Your name?''"]
  have "\<exists>rest. fst (askClaude a_runtime good_backend None ''Summary'' (Some ''project-9'') None) =
       [organizations_request] @
       conversation_request ''org-1'' (conversation_name a_runtime None) (Some ''project-9'')
         (conversation_uuid a_runtime) # rest"
    using th [THEN conjunct1] org by (rule mp)
  then obtain rest where r:
    "fst (askClaude a_runtime good_backend None ''Summary'' (Some ''project-9'') None) =
       [organizations_request] @
       conversation_request ''org-1'' (conversation_name a_runtime None) (Some ''project-9'')
         (conversation_uuid a_runtime) # rest" ..
  have name: "conversation_name a_runtime None = ''Form Assistant - 1/1/2025''"
    using th [THEN conjunct2, THEN conjunct2, THEN conjunct1] by (simp add: a_runtime_def)
  have short: "generateConversationTitle '' **Your name?** '' = ''Form: Your name?''"
    using th [THEN conjunct2, THEN conjunct2, THEN conjunct2, THEN conjunct2, THEN conjunct2,
        THEN conjunct2, THEN conjunct1] f
    by simp
  have f1: "filter (\<lambda>c. c \<notin> set ''#*_~`'')
      (trim '' Please describe your *previous* work experience in detail. Include dates and employers.'') =
      ''Please describe your previous work experience in detail'' @ CHR ''.'' #
      '' Include dates and employers.''"
    by (simp add: trim_def is_ws_def)
  have sentence: "generateConversationTitle
     '' Please describe your *previous* work experience in detail. Include dates and employers.'' =
     ''Form: Please describe your previous work experience in detail.''"
    using conversation_created [where
        asked = "'' Please describe your *previous* work experience in detail. Include dates and employers.''"
        and cleaned = "''Please describe your previous work experience in detail'' @ CHR ''.'' #
          '' Include dates and employers.''"
        and pre = "''Please describe your previous work experience in detail''" and c = "CHR ''.''"
        and post = "'' Include dates and employers.''",
        THEN conjunct2, THEN conjunct2, THEN conjunct2, THEN conjunct2, THEN conjunct2,
        THEN conjunct2, THEN conjunct2, THEN conjunct1] f1
    by simp
  have f2: "filter (\<lambda>c. c \<notin> set ''#*_~`'')
      (trim ''Please describe your previous work experience and the reasons for leaving each job'') =
      ''Please describe your previous work experience and the reasons for leaving each job''"
    by (simp add: trim_def is_ws_def)
  have plain: "generateConversationTitle
     ''Please describe your previous work experience and the reasons for leaving each job'' =
     ''Form: Please describe your previous work experience a...''"
    using conversation_created [where
        asked = "''Please describe your previous work experience and the reasons for leaving each job''"
        and cleaned = "''Please describe your previous work experience and the reasons for leaving each job''",
        THEN conjunct2, THEN conjunct2, THEN conjunct2, THEN conjunct2, THEN conjunct2,
        THEN conjunct2, THEN conjunct2, THEN conjunct2] f2
    by simp
  have f3: "filter (\<lambda>c. c \<notin> set ''#*_~`'')
      (trim ''Please describe your previous work experience and the reasons for leaving. Thanks'') =
      ''Please describe your previous work experience and the reasons for leaving'' @ CHR ''.'' #
      '' Thanks''"
    by (simp add: trim_def is_ws_def)
  have late: "generateConversationTitle
     ''Please describe your previous work experience and the reasons for leaving. Thanks'' =
     ''Form: Please describe your previous work experience a...''"
    using conversation_created [where
        asked = "''Please describe your previous work experience and the reasons for leaving. Thanks''"
        and cleaned = "''Please describe your previous work experience and the reasons for leaving'' @
          CHR ''.'' # '' Thanks''"
        and pre = "''Please describe your previous work experience and the reasons for leaving''"
        and c = "CHR ''.''" and post = "'' Thanks''",
        THEN conjunct2, THEN conjunct2, THEN conjunct2, THEN conjunct2, THEN conjunct2,
        THEN conjunct2, THEN conjunct2, THEN conjunct1] f3
    by simp
  show ?thesis
    unfolding r using org name short sentence plain late
    by (simp add: a_runtime_def is_markdown_char_def trim_def is_ws_def)
qed

text \<open>
  C8 as it is stated fails on two points. The service answers the creation of the
  conversation with the UUID \<open>srv-7\<close>, and the conversation of the request is
  identified by \<open>uuid-1\<close>, which the extension drew itself. And a click in the
  second script, with the detected question \<open>Summary\<close>, sends no title, so that the
  conversation is named after the date, not after the question.
\<close>

theorem conversation_counterexample:
  "created good_backend = Responded 201 ''srv-7'' \<and>
   snd (snd (onMessage_askClaude a_runtime good_backend None
     \<lparr>msg_question = ''Summary'', msg_projectId = None, msg_conversationTitle = None\<rparr>)) =
     Some \<lparr>answer = ''Ada'', conversationId = ''uuid-1'',
       chatUrl = ''https://claude.ai/chat/uuid-1'', newConversationCreated = True\<rparr> \<and>
   sent (fst (click_request2 an_environment a_page)) =
     [\<lparr>msg_question = ''Summary'', msg_projectId = None, msg_conversationTitle = None\<rparr>] \<and>
   take 2 (fst (askClaude a_runtime good_backend None ''Summary'' None None)) =
     [organizations_request,
      conversation_request ''org-1'' ''Form Assistant - 1/1/2025'' None ''uuid-1'']"
proof -
  have org: "organization_id good_backend None = ([organizations_request], Inr ''org-1'')"
    using organization_id_fetched [of None good_backend 200
        "\<lparr>org_uuid = ''org-1'', org_name = ''Ada''\<rparr>" "[]"]
    by (simp add: good_backend_def ok_def)
  obtain rest where r: "fst (askClaude a_runtime good_backend None ''Summary'' None None) =
     [organizations_request] @
     conversation_request ''org-1'' (conversation_name a_runtime None) None
       (conversation_uuid a_runtime) # rest"
    using askClaude_creates [OF org] by blast
  note det = a_field_detected
  have two: "sent (fst (click_request2 an_environment a_page)) =
     [\<lparr>msg_question = ''Summary'', msg_projectId = None, msg_conversationTitle = None\<rparr>]"
    by (simp add: click_request2_def handleClaudeButtonClick2_def proceed_def input_for_def delay_for_def elapse_def
        an_environment_def a_page_def det ask2_def good_reply sendMessageToBackground_def
        store_url_def finish_def showNotification_def)
  show ?thesis
    unfolding r two good_reply
    by (simp add: good_backend_def conversation_name_def default_name_def a_runtime_def)
qed

end
